theory Spec2Isabelle
  imports Main "HOL-Library.AList"
begin

section \<open>JavaScript values\<close>

text \<open>
  The values that cross the interfaces of \<^verbatim>\<open>Task\<close> and \<^verbatim>\<open>Routes\<close>: arguments of the public
  methods, request parameters, response payloads and event data. An object is the list of
  its own properties (the first binding of a key is the one read); an array is an object
  whose keys are its indices. Numbers are integers here: the code only tests them for
  truthiness.
\<close>

datatype jsval =
    JUndefined
  | JNull
  | JBool bool
  | JNum int
  | JStr string
  | JObj "(string \<times> jsval) list"

text \<open>Thrown values. A message built by a template literal keeps its pieces: the literal
  text and the interpolated values, in order.\<close>

datatype error =
    TypeError "piece list"
  | Error "piece list"
  | INVALID_ARGUMENT "piece list"
and piece =
    Lit string
  | Val jsval
  | Json jsval
  | Err error

text \<open>\<^verbatim>\<open>_.isString\<close>, \<^verbatim>\<open>_.isObject\<close>, \<^verbatim>\<open>_.isBoolean\<close> of lodash, and JavaScript's truthiness.\<close>

fun isString :: "jsval \<Rightarrow> bool" where
  "isString (JStr s) = True"
| "isString v = False"

fun isObject :: "jsval \<Rightarrow> bool" where
  "isObject (JObj kv) = True"
| "isObject v = False"

fun isBoolean :: "jsval \<Rightarrow> bool" where
  "isBoolean (JBool b) = True"
| "isBoolean v = False"

fun truthy :: "jsval \<Rightarrow> bool" where
  "truthy JUndefined = False"
| "truthy JNull = False"
| "truthy (JBool b) = b"
| "truthy (JNum n) = (n \<noteq> 0)"
| "truthy (JStr s) = (s \<noteq> [])"
| "truthy (JObj kv) = True"

text \<open>A property read \<^verbatim>\<open>v.k\<close>: a \<^verbatim>\<open>TypeError\<close> on \<^verbatim>\<open>undefined\<close> and \<^verbatim>\<open>null\<close>, the bound value or
  \<^verbatim>\<open>undefined\<close> on an object, \<^verbatim>\<open>undefined\<close> on the other primitives (none of the names read
  by \<^verbatim>\<open>Task\<close> is a property of a primitive's wrapper).\<close>

fun getprop :: "jsval \<Rightarrow> string \<Rightarrow> error + jsval" where
  "getprop JUndefined k = Inl (TypeError [Lit ''Cannot read property '', Lit k, Lit '' of '', Val JUndefined])"
| "getprop JNull k = Inl (TypeError [Lit ''Cannot read property '', Lit k, Lit '' of '', Val JNull])"
| "getprop (JObj kv) k = Inr (case map_of kv k of None \<Rightarrow> JUndefined | Some v \<Rightarrow> v)"
| "getprop v k = Inr JUndefined"

text \<open>A default parameter \<^verbatim>\<open>(x = {})\<close> replaces \<^verbatim>\<open>undefined\<close> only.\<close>

definition default_empty :: "jsval \<Rightarrow> jsval" where
  "default_empty v = (if v = JUndefined then JObj [] else v)"

section \<open>Routes (src/lib/util/Routes.js)\<close>

definition RESERVATION_LIST :: string where "RESERVATION_LIST = ''reservationList''"
definition RESERVATION_INSTANCE :: string where "RESERVATION_INSTANCE = ''reservationInstance''"
definition WORKER_INSTANCE :: string where "WORKER_INSTANCE = ''workerInstance''"
definition WORKER_LIST :: string where "WORKER_LIST = ''workerList''"
definition TASK_RESERVATION_INSTANCE :: string where "TASK_RESERVATION_INSTANCE = ''taskReservationInstance''"
definition TASK_LIST :: string where "TASK_LIST = ''taskList''"
definition TASK_INSTANCE :: string where "TASK_INSTANCE = ''taskInstance''"
definition TASK_TRANSFER_LIST :: string where "TASK_TRANSFER_LIST = ''taskTransferList''"
definition TASK_TRANSFER_INSTANCE :: string where "TASK_TRANSFER_INSTANCE = ''taskTransferInstance''"
definition TASKQUEUE_LIST :: string where "TASKQUEUE_LIST = ''taskQueueList''"
definition WORKER_CHANNELS :: string where "WORKER_CHANNELS = ''workerChannels''"
definition ACTIVITIES_LIST :: string where "ACTIVITIES_LIST = ''activitiesList''"
definition CUSTOMER_PARTICIPANT_INSTANCE :: string where "CUSTOMER_PARTICIPANT_INSTANCE = ''customerParticipantInstance''"
definition WORKER_PARTICIPANT_INSTANCE :: string where "WORKER_PARTICIPANT_INSTANCE = ''workerParticipantInstance''"
definition HOLD_WORKER_PARTICIPANT_INSTANCE :: string where "HOLD_WORKER_PARTICIPANT_INSTANCE = ''holdWorkerParticipantInstance''"
definition KICK_WORKER_PARTICIPANT :: string where "KICK_WORKER_PARTICIPANT = ''kickWorkerParticipant''"

lemmas route_names =
  RESERVATION_LIST_def RESERVATION_INSTANCE_def WORKER_INSTANCE_def WORKER_LIST_def
  TASK_RESERVATION_INSTANCE_def TASK_LIST_def TASK_INSTANCE_def TASK_TRANSFER_LIST_def
  TASK_TRANSFER_INSTANCE_def TASKQUEUE_LIST_def WORKER_CHANNELS_def ACTIVITIES_LIST_def
  CUSTOMER_PARTICIPANT_INSTANCE_def WORKER_PARTICIPANT_INSTANCE_def
  HOLD_WORKER_PARTICIPANT_INSTANCE_def KICK_WORKER_PARTICIPANT_def

record route =
  path :: string

text \<open>A \<^verbatim>\<open>Routes\<close> instance. The table \<^verbatim>\<open>routes\<close> keeps the order of the object literal.\<close>

record Routes =
  workspaceSid :: string
  workerSid :: string
  routes :: "(string \<times> route) list"

text \<open>The constructor. \<^verbatim>\<open>path.join\<close> belongs to the platform and is the parameter \<open>join\<close>;
  the sids are strings, so that \<^verbatim>\<open>!workspaceSid\<close> holds of the empty string only.\<close>

definition routes_table :: "(string list \<Rightarrow> string) \<Rightarrow> string \<Rightarrow> string \<Rightarrow> (string \<times> route) list" where
  "routes_table join ws wk =
     [ (ACTIVITIES_LIST, \<lparr> path = join [''Workspaces'', ws, ''Activities''] \<rparr>),
       (WORKER_INSTANCE, \<lparr> path = join [''Workspaces'', ws, ''Workers'', wk] \<rparr>),
       (WORKER_LIST, \<lparr> path = join [''Workspaces'', ws, ''Workers''] \<rparr>),
       (RESERVATION_INSTANCE, \<lparr> path = join [''Workspaces'', ws, ''Workers'', wk, ''Reservations'', ''%s''] \<rparr>),
       (RESERVATION_LIST, \<lparr> path = join [''Workspaces'', ws, ''Workers'', wk, ''Reservations''] \<rparr>),
       (TASK_LIST, \<lparr> path = join [''Workspaces'', ws, ''Tasks''] \<rparr>),
       (TASK_INSTANCE, \<lparr> path = join [''Workspaces'', ws, ''Tasks'', ''%s''] \<rparr>),
       (TASK_TRANSFER_LIST, \<lparr> path = join [''Workspaces'', ws, ''Workers'', wk, ''Transfers''] \<rparr>),
       (TASK_TRANSFER_INSTANCE, \<lparr> path = join [''Workspaces'', ws, ''Workers'', wk, ''Transfers'', ''%s''] \<rparr>),
       (TASK_RESERVATION_INSTANCE, \<lparr> path = join [''Workspaces'', ws, ''Tasks'', ''%s'', ''Reservations'', ''%s''] \<rparr>),
       (TASKQUEUE_LIST, \<lparr> path = join [''Workspaces'', ws, ''TaskQueues''] \<rparr>),
       (WORKER_CHANNELS, \<lparr> path = join [''Workspaces'', ws, ''Workers'', wk, ''WorkerChannels''] \<rparr>),
       (CUSTOMER_PARTICIPANT_INSTANCE, \<lparr> path = join [''Workspaces'', ws, ''Workers'', wk, ''CustomerParticipant''] \<rparr>),
       (WORKER_PARTICIPANT_INSTANCE, \<lparr> path = join [''Workspaces'', ws, ''Workers'', wk, ''WorkerParticipant''] \<rparr>),
       (HOLD_WORKER_PARTICIPANT_INSTANCE, \<lparr> path = join [''Workspaces'', ws, ''Workers'', wk, ''HoldWorkerParticipant''] \<rparr>),
       (KICK_WORKER_PARTICIPANT, \<lparr> path = join [''Workspaces'', ws, ''Workers'', wk, ''KickWorkerParticipant''] \<rparr>) ]"

definition new_Routes :: "(string list \<Rightarrow> string) \<Rightarrow> string \<Rightarrow> string \<Rightarrow> error + Routes" where
  "new_Routes join ws wk =
     (if ws = [] \<or> wk = [] then
        Inl (INVALID_ARGUMENT [Lit ''Error instantiating Routes class. <string>workspaceSid and <string>workerSid are required parameters.''])
      else Inr \<lparr> workspaceSid = ws, workerSid = wk, routes = routes_table join ws wk \<rparr>)"

text \<open>What \<^verbatim>\<open>path.join\<close> returns for segments that are not empty, hold no slash and are not
  \<^verbatim>\<open>.\<close> or \<^verbatim>\<open>..\<close>: the segments with a slash between them.\<close>

fun join_segments :: "string list \<Rightarrow> string" where
  "join_segments [] = ''.''"
| "join_segments [s] = s"
| "join_segments (s # t # ss) = s @ ''/'' @ join_segments (t # ss)"

subsection \<open>The regular expression \<^verbatim>\<open>/%s/\<close>\<close>

text \<open>\<^verbatim>\<open>(path.match(/%s/g) || []).length\<close>: the number of matches, scanned from the left.\<close>

fun match_count :: "string \<Rightarrow> nat" where
  "match_count (c # d # cs) =
     (if c = CHR ''%'' \<and> d = CHR ''s'' then Suc (match_count cs) else match_count (d # cs))"
| "match_count cs = 0"

text \<open>The first match of \<^verbatim>\<open>/%s/\<close>: the text before it and the text after it.\<close>

fun first_match :: "string \<Rightarrow> (string \<times> string) option" where
  "first_match (c # d # cs) =
     (if c = CHR ''%'' \<and> d = CHR ''s'' then Some ([], cs)
      else (case first_match (d # cs) of None \<Rightarrow> None | Some (b, a) \<Rightarrow> Some (c # b, a)))"
| "first_match cs = None"

text \<open>\<^verbatim>\<open>GetSubstitution\<close> of ECMAScript for a pattern with no capture group: in the replacement
  text \<^verbatim>\<open>$$\<close> is a dollar, \<^verbatim>\<open>$&\<close> the matched text, \<^verbatim>\<open>$`\<close> the text before the match and
  \<^verbatim>\<open>$'\<close> the text after it; any other dollar stands for itself.\<close>

fun GetSubstitution :: "string \<Rightarrow> string \<Rightarrow> string \<Rightarrow> string \<Rightarrow> string" where
  "GetSubstitution m b a [] = []"
| "GetSubstitution m b a [c] = [c]"
| "GetSubstitution m b a (c # d # r) =
     (if c = CHR ''$'' \<and> d = CHR ''$'' then CHR ''$'' # GetSubstitution m b a r
      else if c = CHR ''$'' \<and> d = CHR ''&'' then m @ GetSubstitution m b a r
      else if c = CHR ''$'' \<and> d = CHR 0x60 then b @ GetSubstitution m b a r
      else if c = CHR ''$'' \<and> d = CHR 0x27 then a @ GetSubstitution m b a r
      else c # GetSubstitution m b a (d # r))"

text \<open>\<^verbatim>\<open>p.replace(/%s/, arg)\<close>: the first match only; no match leaves the string as it is.\<close>

definition replace_first :: "string \<Rightarrow> string \<Rightarrow> string" where
  "replace_first p arg =
     (case first_match p of
        None \<Rightarrow> p
      | Some (b, a) \<Rightarrow> b @ GetSubstitution ''%s'' b a arg @ a)"

text \<open>\<^verbatim>\<open>getRoute(route, ...args)\<close>. The arguments are strings (entity sids).\<close>

definition getRoute :: "Routes \<Rightarrow> string \<Rightarrow> string list \<Rightarrow> error + route" where
  "getRoute r name args =
     (case map_of (routes r) name of
        None \<Rightarrow> Inl (INVALID_ARGUMENT [Lit ''Invalid route fetched <string>route '', Lit [CHR 0x22], Lit name, Lit [CHR 0x22], Lit '' does not exist.''])
      | Some rt \<Rightarrow>
          if args \<noteq> [] then
            (let copy = rt in
             if length args \<noteq> match_count (path copy) then
               Inl (INVALID_ARGUMENT [Lit ''Invalid number of positional arguments supplied for route '', Lit name])
             else Inr (foldl (\<lambda>copy arg. copy \<lparr> path := replace_first (path copy) arg \<rparr>) copy args))
          else Inr rt)"

text \<open>The reading of the specification: one pass over the template from the left, each
  placeholder taking the next argument.\<close>

fun substitute_in_order :: "string \<Rightarrow> string list \<Rightarrow> string" where
  "substitute_in_order (c # d # cs) args =
     (if c = CHR ''%'' \<and> d = CHR ''s'' then
        (case args of [] \<Rightarrow> c # d # substitute_in_order cs [] | x # xs \<Rightarrow> x @ substitute_in_order cs xs)
      else c # substitute_in_order (d # cs) args)"
| "substitute_in_order cs args = cs"

text \<open>A template in which every percent sign starts a placeholder.\<close>

fun placeholders_only :: "string \<Rightarrow> bool" where
  "placeholders_only [] = True"
| "placeholders_only [c] = (c \<noteq> CHR ''%'')"
| "placeholders_only (c # d # cs) =
     (if c = CHR ''%'' then d = CHR ''s'' \<and> placeholders_only cs else placeholders_only (d # cs))"

text \<open>An argument with no percent sign and no dollar sign.\<close>

definition plain :: "string \<Rightarrow> bool" where
  "plain a = (CHR ''%'' \<notin> set a \<and> CHR ''$'' \<notin> set a)"

text \<open>The route table of workspace \<^verbatim>\<open>WSxxx\<close> and worker \<^verbatim>\<open>WKyyy\<close>.\<close>

definition example_Routes :: Routes where
  "example_Routes =
     \<lparr> workspaceSid = ''WSxxx'', workerSid = ''WKyyy'',
       routes = routes_table join_segments ''WSxxx'' ''WKyyy'' \<rparr>"

section \<open>Task (src/unnamed/part_000)\<close>

subsection \<open>State, collaborators and effects\<close>

text \<open>A transfer entity as \<^verbatim>\<open>Task\<close> sees it: its \<^verbatim>\<open>sid\<close>, and the payload it was built from, which
  stands for its other fields (mode, status, the other leg). \<^verbatim>\<open>Transfers\<close> has two slots,
  each holding a transfer or \<^verbatim>\<open>null\<close>.\<close>

record transfer =
  transferSid :: string
  payload :: jsval

record Transfers =
  incoming :: "transfer option"
  outgoing :: "transfer option"

text \<open>The fields of a \<^verbatim>\<open>Task\<close>: \<^verbatim>\<open>sid\<close> and \<^verbatim>\<open>reservationSid\<close> are strings, \<^verbatim>\<open>transfers\<close> is the
  \<^verbatim>\<open>Transfers\<close> object, and \<open>own\<close> reads every other property by its name (\<^verbatim>\<open>undefined\<close> when
  the property was never set), as \<^verbatim>\<open>this[field]\<close> does.\<close>

record Task =
  sid :: string
  reservationSid :: string
  own :: "string \<Rightarrow> jsval"
  transfers :: Transfers

text \<open>What a method does to the world outside the fields of the \<^verbatim>\<open>Task\<close>, in the order it does
  it: a line written to the log (with the extra arguments of the call), a request posted, a
  call of \<^verbatim>\<open>this.emit\<close> (with the \<^verbatim>\<open>Task\<close> itself or the outgoing transfer as argument), a call of
  a method of \<^verbatim>\<open>Transfers\<close>.\<close>

datatype level = TRACE | DEBUG | INFO | ERROR

datatype emitted = This | Outgoing "transfer option"

datatype effect =
    Log level "piece list" "error list"
  | Post string "(string \<times> jsval) list" jsval
  | Emit jsval emitted
  | Called_update jsval
  | Called_updateOutgoing jsval jsval
  | Called_emitEvent jsval jsval

text \<open>The modules that \<^verbatim>\<open>Task\<close> imports are parameters: the constructor of \<^verbatim>\<open>TaskDescriptor\<close>
  (payload and configuration to the fields of the descriptor, or the value it throws), the
  three methods of \<^verbatim>\<open>Transfers\<close> that \<^verbatim>\<open>Task\<close> calls (each returns the object as it leaves it and
  the value it throws, if any; a \<^verbatim>\<open>Transfers\<close> object has no reference to the task, so that is
  all it can change of it), \<^verbatim>\<open>validateOptions\<close> of \<^verbatim>\<open>util/Tools\<close>, the constants of \<^verbatim>\<open>util/Constants\<close>,
  and the \<^verbatim>\<open>Routes\<close> that the worker's \<^verbatim>\<open>getRoutes()\<close> returns.

  A \<^verbatim>\<open>Task\<close> is an \<^verbatim>\<open>EventEmitter\<close>. The listeners that its callers have attached are part of the
  surroundings of a call too: \<open>listeners\<close> gives, for an event name, the listeners attached when
  the call is made, in the order they were added, each as what a call of it does, return
  (\<open>None\<close>) or throw a value. No method of \<^verbatim>\<open>Task\<close> adds or removes a listener; the bookkeeping of
  the emitter itself (it drops a listener added with \<^verbatim>\<open>once\<close> when it calls it) and whatever else
  a listener does are not part of the methods described here.\<close>

record env =
  TaskDescriptor :: "jsval \<Rightarrow> jsval \<Rightarrow> error + (string \<Rightarrow> jsval)"
  Transfers_update :: "Transfers \<Rightarrow> jsval \<Rightarrow> Transfers \<times> error option"
  Transfers_updateOutgoing :: "Transfers \<Rightarrow> jsval \<Rightarrow> jsval \<Rightarrow> Transfers \<times> error option"
  Transfers_emitEvent :: "Transfers \<Rightarrow> jsval \<Rightarrow> jsval \<Rightarrow> Transfers \<times> error option"
  validateOptions :: "jsval \<Rightarrow> (string \<times> (jsval \<Rightarrow> bool)) list \<Rightarrow> bool"
  getRoutes :: Routes
  API_V1 :: jsval
  API_V2 :: jsval
  TASK_STATUS_COMPLETED :: jsval
  TASK_STATUS_WRAPPING :: jsval
  TRANSFER_INITIATED :: string
  taskTransferEventTypes :: "(string \<times> string) list"
  listeners :: "jsval \<Rightarrow> error option list"

text \<open>How a call of a command ends for its caller: an exception thrown by the call, a promise
  that is already rejected (a \<^verbatim>\<open>throw\<close> in the body of an \<^verbatim>\<open>async\<close> function), or the promise of
  the request that was posted.\<close>

datatype completion = Throws error | Rejects error | Awaits

definition fieldsToUpdate :: "string list" where
  "fieldsToUpdate =
     [''attributes'', ''status'', ''workflowSid'', ''workflowName'', ''queueSid'', ''queueName'',
      ''priority'', ''reason'', ''routingTarget'', ''timeout'', ''taskChannelSid'',
      ''taskChannelUniqueName'', ''age'', ''addOns'', ''dateUpdated'', ''transfers'']"

definition TaskProperties :: "string list" where
  "TaskProperties =
     [''addons'', ''age'', ''attributes'', ''date_created'', ''date_updated'', ''priority'',
      ''queue_name'', ''queue_sid'', ''reason'', ''routing_target'', ''sid'', ''assignment_status'',
      ''task_channel_unique_name'', ''task_channel_sid'', ''timeout'', ''workflow_name'',
      ''workflow_sid'']"

subsection \<open>Reconciliation: \<^verbatim>\<open>_update\<close>\<close>

text \<open>\<^verbatim>\<open>latestTransfersData.incoming || latestTransfersData.outgoing\<close>, as a condition.\<close>

definition carries :: "jsval \<Rightarrow> error + bool" where
  "carries ltd =
     (case getprop ltd ''incoming'' of
        Inl err \<Rightarrow> Inl err
      | Inr i \<Rightarrow>
          if truthy i then Inr True
          else (case getprop ltd ''outgoing'' of
                  Inl err \<Rightarrow> Inl err
                | Inr out \<Rightarrow> Inr (truthy out)))"

text \<open>The body of \<^verbatim>\<open>fieldsToUpdate.forEach\<close>, field after field; it stops at the first value
  thrown.\<close>

fun forEach_field ::
  "env \<Rightarrow> (string \<Rightarrow> jsval) \<Rightarrow> jsval \<Rightarrow> string list \<Rightarrow> Task \<Rightarrow> error option \<times> Task \<times> effect list" where
  "forEach_field e d ltd [] t = (None, t, [])"
| "forEach_field e d ltd (field # rest) t =
     (if field = ''transfers'' then
        (case carries ltd of
           Inl err \<Rightarrow> (Some err, t, [])
         | Inr c \<Rightarrow>
             if c then
               (case Transfers_update e (transfers t) ltd of
                  (tr, Some err) \<Rightarrow> (Some err, t \<lparr> transfers := tr \<rparr>, [Called_update ltd])
                | (tr, None) \<Rightarrow>
                    (case forEach_field e d ltd rest (t \<lparr> transfers := tr \<rparr>) of
                       (r, t', effs) \<Rightarrow> (r, t', Called_update ltd # effs)))
             else forEach_field e d ltd rest t)
      else forEach_field e d ltd rest (t \<lparr> own := (own t)(field := d field) \<rparr>))"

text \<open>The \<^verbatim>\<open>catch\<close> block of \<^verbatim>\<open>_update\<close>: it reads \<^verbatim>\<open>latestTaskData.sid\<close> for the message of the log,
  logs the message with the value caught, and throws an \<^verbatim>\<open>Error\<close> whose message holds the sid
  and the value caught.\<close>

definition update_aborted :: "jsval \<Rightarrow> error \<Rightarrow> (error + unit) \<times> effect list" where
  "update_aborted latestTaskData err =
     (case getprop latestTaskData ''sid'' of
        Inl type_error \<Rightarrow> (Inl type_error, [])
      | Inr s \<Rightarrow>
          (Inl (Error [Lit ''Failed to update Task sid='', Val s, Lit ''. Update aborted. Error: '', Err err, Lit ''.'']),
           [Log ERROR [Lit ''Failed to update Task sid='', Val s, Lit ''. Update aborted.''] [err]]))"

text \<open>\<^verbatim>\<open>_update(latestTaskData, latestTransfersData = {})\<close>. The \<^verbatim>\<open>try\<close> block builds the descriptor
  from the payload and \<^verbatim>\<open>this._config\<close> and runs the loop; a value thrown there goes to the
  \<^verbatim>\<open>catch\<close> block.\<close>

definition Task_update :: "env \<Rightarrow> Task \<Rightarrow> jsval \<Rightarrow> jsval \<Rightarrow> (error + unit) \<times> Task \<times> effect list" where
  "Task_update e t latestTaskData latestTransfersData =
     (case (case TaskDescriptor e latestTaskData (own t ''_config'') of
              Inl err \<Rightarrow> (Some err, t, [])
            | Inr updatedTaskDescriptor \<Rightarrow>
                forEach_field e updatedTaskDescriptor (default_empty latestTransfersData) fieldsToUpdate t) of
        (None, t', effs) \<Rightarrow> (Inr (), t', effs)
      | (Some err, t', effs) \<Rightarrow>
          (case update_aborted latestTaskData err of
             (thrown, logged) \<Rightarrow> (thrown, t', effs @ logged)))"

subsection \<open>Events\<close>

text \<open>\<^verbatim>\<open>emit(name, argument)\<close> of \<^verbatim>\<open>EventEmitter\<close>, which \<^verbatim>\<open>Task\<close> extends. The event \<^verbatim>\<open>error\<close> with no
  listener makes it throw an \<^verbatim>\<open>Error\<close> for the unhandled event (the argument, a task or a
  transfer, is not itself an \<^verbatim>\<open>Error\<close>; the message goes on with a rendering of the argument).
  Otherwise the listeners are called in order, and a value that one throws leaves \<^verbatim>\<open>emit\<close> at
  once.\<close>

fun run_listeners :: "error option list \<Rightarrow> error + unit" where
  "run_listeners [] = Inr ()"
| "run_listeners (None # ls) = run_listeners ls"
| "run_listeners (Some err # ls) = Inl err"

definition emit :: "env \<Rightarrow> jsval \<Rightarrow> error + unit" where
  "emit e name =
     (if name = JStr ''error'' \<and> listeners e name = [] then Inl (Error [Lit ''Unhandled error.''])
      else run_listeners (listeners e name))"

definition Task_emitEvent :: "env \<Rightarrow> Task \<Rightarrow> jsval \<Rightarrow> jsval \<Rightarrow> (error + unit) \<times> Task \<times> effect list" where
  "Task_emitEvent e t eventType rawEventData =
     (let logged = Log TRACE [Lit ''_emitEvent('', Val eventType, Lit '', '', Json rawEventData, Lit '')''] [] in
      if \<not> isString eventType then
        (Inl (TypeError [Lit ''Error calling _emitEvent(). <string>eventType is a required parameter.'']), t, [logged])
      else if \<not> isObject rawEventData then
        (Inl (TypeError [Lit ''Error calling method _emitEvent(). <object>payload is a required parameter.'']), t, [logged])
      else (emit e eventType, t, [logged, Emit eventType This]))"

text \<open>\<^verbatim>\<open>Object.keys(_.pick(object, keys))\<close>: the keys of the list that the object has.\<close>

definition pick_keys :: "(string \<times> string) list \<Rightarrow> string list \<Rightarrow> string list" where
  "pick_keys object ks = filter (\<lambda>k. map_of object k \<noteq> None) ks"

text \<open>\<^verbatim>\<open>this.transfers.outgoing && this.transfers.outgoing.sid === rawEventData.sid\<close>: the sid of a
  transfer is a string, so the two are identical when the event's \<^verbatim>\<open>sid\<close> is that string.\<close>

definition outgoing_matches :: "Task \<Rightarrow> jsval \<Rightarrow> bool" where
  "outgoing_matches t rawEventData =
     (case outgoing (transfers t) of
        None \<Rightarrow> False
      | Some held \<Rightarrow> getprop rawEventData ''sid'' = Inr (JStr (transferSid held)))"

definition Task_emitEventForOutgoingTransfer ::
  "env \<Rightarrow> Task \<Rightarrow> jsval \<Rightarrow> jsval \<Rightarrow> (error + unit) \<times> Task \<times> effect list" where
  "Task_emitEventForOutgoingTransfer e t eventType rawEventData =
     (let logged = Log TRACE [Lit ''_emitEventForOutgoingTransfer('', Val eventType, Lit '', '', Json rawEventData, Lit '')''] [] in
      if \<not> isString eventType then
        (Inl (TypeError [Lit ''Error calling _emitEventForOutgoingTransfer(). <string>eventType is a required parameter.'']), t, [logged])
      else if \<not> isObject rawEventData then
        (Inl (TypeError [Lit ''Error calling method _emitEventForOutgoingTransfer(). <object>payload is a required parameter.'']), t, [logged])
      else if outgoing_matches t rawEventData then
        (if eventType \<in> JStr ` set (pick_keys (taskTransferEventTypes e) [TRANSFER_INITIATED e]) then
           (case Transfers_updateOutgoing e (transfers t) rawEventData JUndefined of
              (tr, Some err) \<Rightarrow> (Inl err, t \<lparr> transfers := tr \<rparr>, [logged, Called_updateOutgoing rawEventData JUndefined])
            | (tr, None) \<Rightarrow>
                (emit e (case map_of (taskTransferEventTypes e) (TRANSFER_INITIATED e) of
                           None \<Rightarrow> JUndefined | Some name \<Rightarrow> JStr name),
                 t \<lparr> transfers := tr \<rparr>,
                 [logged, Called_updateOutgoing rawEventData JUndefined,
                  Emit (case map_of (taskTransferEventTypes e) (TRANSFER_INITIATED e) of
                          None \<Rightarrow> JUndefined | Some name \<Rightarrow> JStr name)
                       (Outgoing (outgoing tr))]))
         else
           (case Transfers_emitEvent e (transfers t) eventType rawEventData of
              (tr, Some err) \<Rightarrow> (Inl err, t \<lparr> transfers := tr \<rparr>, [logged, Called_emitEvent eventType rawEventData])
            | (tr, None) \<Rightarrow> (Inr (), t \<lparr> transfers := tr \<rparr>, [logged, Called_emitEvent eventType rawEventData])))
      else
        (Inr (), t,
         [logged,
          Log DEBUG [Lit ''The transfers.outgoing object is either not present or does not match the transfer sid in the event. '',
                     Json rawEventData] []]))"

subsection \<open>Commands\<close>

text \<open>Each command is the call itself, up to the promise it returns, and the handler that runs
  when the request resolves with a response. A request that rejects runs no handler.\<close>

definition Task_complete :: "env \<Rightarrow> Task \<Rightarrow> jsval \<Rightarrow> completion \<times> Task \<times> effect list" where
  "Task_complete e t reason =
     (if \<not> isString reason then
        (Throws (TypeError [Lit ''Error calling method complete(). <string>reason is a required parameter.'']), t, [])
      else
        (case getRoute (getRoutes e) TASK_INSTANCE [sid t] of
           Inl err \<Rightarrow> (Throws err, t, [])
         | Inr r \<Rightarrow>
             (Awaits, t,
              [Post (path r) [(''AssignmentStatus'', TASK_STATUS_COMPLETED e), (''Reason'', reason)] (API_V1 e)])))"

definition Task_wrapUp :: "env \<Rightarrow> Task \<Rightarrow> jsval \<Rightarrow> completion \<times> Task \<times> effect list" where
  "Task_wrapUp e t opts =
     (let options = default_empty opts in
      case getRoute (getRoutes e) TASK_INSTANCE [sid t] of
        Inl err \<Rightarrow> (Throws err, t, [])
      | Inr r \<Rightarrow>
          (case getprop options ''reason'' of
             Inl type_error \<Rightarrow> (Throws type_error, t, [])
           | Inr reason \<Rightarrow>
               if truthy reason then
                 (if isString reason then
                    (Awaits, t,
                     [Post (path r) [(''AssignmentStatus'', TASK_STATUS_WRAPPING e), (''Reason'', reason)] (API_V1 e)])
                  else
                    (Throws (Error [Lit ''Failed to call wrapUp() on Task sid='', Val (JStr (sid t)),
                                    Lit ''. A <string>reason is required.'']), t, []))
               else
                 (Awaits, t, [Post (path r) [(''AssignmentStatus'', TASK_STATUS_WRAPPING e)] (API_V1 e)])))"

definition Task_setAttributes :: "env \<Rightarrow> Task \<Rightarrow> jsval \<Rightarrow> completion \<times> Task \<times> effect list" where
  "Task_setAttributes e t attributes =
     (if \<not> isObject attributes then
        (Throws (TypeError [Lit ''Unable to set attributes on Task. <object>attributes is a required parameter.'']), t, [])
      else
        (case getRoute (getRoutes e) TASK_INSTANCE [sid t] of
           Inl err \<Rightarrow> (Throws err, t, [])
         | Inr r \<Rightarrow> (Awaits, t, [Post (path r) [(''Attributes'', attributes)] (API_V1 e)])))"

text \<open>\<^verbatim>\<open>for (const option in options)\<close> with \<^verbatim>\<open>options[option]\<close>: the keys of an object in the order
  of its properties, the indices of a string, nothing for the other values.\<close>

fun own_keys :: "(string \<times> jsval) list \<Rightarrow> string list" where
  "own_keys [] = []"
| "own_keys ((k, v) # kv) = k # filter (\<lambda>k'. k' \<noteq> k) (own_keys kv)"

fun decimal :: "nat \<Rightarrow> string" where
  "decimal n =
     (if n < 10 then [char_of (48 + n)] else decimal (n div 10) @ [char_of (48 + n mod 10)])"

fun for_in :: "jsval \<Rightarrow> (string \<times> jsval) list" where
  "for_in (JObj kv) = map (\<lambda>k. (k, case map_of kv k of None \<Rightarrow> JUndefined | Some v \<Rightarrow> v)) (own_keys kv)"
| "for_in (JStr s) = map (\<lambda>i. (decimal i, JStr [s ! i])) [0 ..< length s]"
| "for_in v = []"

text \<open>\<^verbatim>\<open>_.upperFirst\<close> on the letters of ASCII.\<close>

definition upperFirst :: "string \<Rightarrow> string" where
  "upperFirst s =
     (case s of
        [] \<Rightarrow> []
      | c # cs \<Rightarrow>
          (if 97 \<le> (of_char c :: nat) \<and> (of_char c :: nat) \<le> 122
           then char_of ((of_char c :: nat) - 32) else c) # cs)"

definition Task_updateParticipant :: "env \<Rightarrow> Task \<Rightarrow> jsval \<Rightarrow> completion \<times> Task \<times> effect list" where
  "Task_updateParticipant e t options =
     (let types = [(''hold'', isBoolean)] in
      if \<not> validateOptions e options types then
        (Throws (TypeError [Lit ''Failed to update Worker Participant tied to Task sid='', Val (JStr (sid t)),
                            Lit ''. The options passed in did not match the required types.'']), t, [])
      else
        (case getRoute (getRoutes e) CUSTOMER_PARTICIPANT_INSTANCE [] of
           Inl err \<Rightarrow> (Throws err, t, [])
         | Inr r \<Rightarrow>
             (Awaits, t,
              [Post (path r)
                 (foldl (\<lambda>requestParams (option, v). AList.update (upperFirst option) v requestParams)
                    [(''TaskSid'', JStr (sid t))] (for_in options))
                 (API_V2 e)])))"

definition Task_kick :: "env \<Rightarrow> Task \<Rightarrow> jsval \<Rightarrow> completion \<times> Task \<times> effect list" where
  "Task_kick e t workerSid' =
     (if \<not> isString workerSid' then
        (Throws (TypeError [Lit ''Error calling method kick(). <string>workerSid is a required parameter.'']), t, [])
      else
        (case getRoute (getRoutes e) KICK_WORKER_PARTICIPANT [] of
           Inl err \<Rightarrow> (Throws err, t, [])
         | Inr r \<Rightarrow>
             (Awaits, t,
              [Post (path r) [(''TaskSid'', JStr (sid t)), (''TargetWorkerSid'', workerSid')] (API_V2 e)])))"

definition Task_hold :: "env \<Rightarrow> Task \<Rightarrow> jsval \<Rightarrow> jsval \<Rightarrow> completion \<times> Task \<times> effect list" where
  "Task_hold e t targetWorkerSid onHold =
     (if \<not> isString targetWorkerSid then
        (Throws (TypeError [Lit ''Error calling method hold(). <string>targetWorkerSid is a required parameter.'']), t, [])
      else if \<not> isBoolean onHold then
        (Throws (TypeError [Lit ''Error calling method hold(). <boolean>onHold is a required parameter that is either true or false.'']), t, [])
      else
        (case getRoute (getRoutes e) HOLD_WORKER_PARTICIPANT_INSTANCE [] of
           Inl err \<Rightarrow> (Throws err, t, [])
         | Inr r \<Rightarrow>
             (Awaits, t,
              [Post (path r)
                 [(''TaskSid'', JStr (sid t)), (''TargetWorkerSid'', targetWorkerSid), (''Hold'', onHold)]
                 (API_V2 e)])))"

text \<open>The handler of \<^verbatim>\<open>complete\<close>, \<^verbatim>\<open>wrapUp\<close>, \<^verbatim>\<open>setAttributes\<close>, \<^verbatim>\<open>updateParticipant\<close>, \<^verbatim>\<open>kick\<close> and
  \<^verbatim>\<open>hold\<close>: \<^verbatim>\<open>response => this._update(response)\<close>.\<close>

definition then_update :: "env \<Rightarrow> Task \<Rightarrow> jsval \<Rightarrow> (error + unit) \<times> Task \<times> effect list" where
  "then_update e t response = Task_update e t response JUndefined"

text \<open>\<^verbatim>\<open>async transfer(to, options = {})\<close> up to its \<^verbatim>\<open>await\<close>: a value thrown in the body rejects
  the promise that the call returns.\<close>

definition Task_transfer :: "env \<Rightarrow> Task \<Rightarrow> jsval \<Rightarrow> jsval \<Rightarrow> completion \<times> Task \<times> effect list" where
  "Task_transfer e t to opts =
     (let options = default_empty opts in
      if \<not> isString to then
        (Rejects (TypeError [Lit ''Error calling method transfer(). <string>to is a required parameter.'']), t, [])
      else
        (case getRoute (getRoutes e) TASK_TRANSFER_LIST [] of
           Inl err \<Rightarrow> (Rejects err, t, [])
         | Inr r \<Rightarrow>
             (case getprop options ''attributes'' of
                Inl type_error \<Rightarrow> (Rejects type_error, t, [])
              | Inr attributes \<Rightarrow>
                  (case getprop options ''mode'' of
                     Inl type_error \<Rightarrow> (Rejects type_error, t, [])
                   | Inr mode \<Rightarrow>
                       (case getprop options ''priority'' of
                          Inl type_error \<Rightarrow> (Rejects type_error, t, [])
                        | Inr priority \<Rightarrow>
                            (Awaits, t,
                             [Post (path r)
                                ([(''ReservationSid'', JStr (reservationSid t)), (''TaskSid'', JStr (sid t)), (''To'', to)]
                                 @ (if truthy attributes then [(''Attributes'', attributes)] else [])
                                 @ (if truthy mode then [(''Mode'', mode)] else [])
                                 @ (if truthy priority then [(''Priority'', priority)] else []))
                                (API_V2 e)]))))))"

text \<open>\<^verbatim>\<open>transfer\<close> after its \<^verbatim>\<open>await\<close>, once the request has resolved with a response.\<close>

definition transfer_resumed :: "env \<Rightarrow> Task \<Rightarrow> jsval \<Rightarrow> jsval \<Rightarrow> (error + unit) \<times> Task \<times> effect list" where
  "transfer_resumed e t to transferredTaskResponse =
     (let logged = Log INFO [Lit ''Completed transfer to Worker/TaskQueue='', Val to] [] in
      case Transfers_updateOutgoing e (transfers t) transferredTaskResponse (JBool True) of
        (tr, Some err) \<Rightarrow>
          (Inl err, t \<lparr> transfers := tr \<rparr>, [logged, Called_updateOutgoing transferredTaskResponse (JBool True)])
      | (tr, None) \<Rightarrow>
          (Inr (), t \<lparr> transfers := tr \<rparr>, [logged, Called_updateOutgoing transferredTaskResponse (JBool True)]))"

subsection \<open>The collaborators, as the specification describes them\<close>

text \<open>Modelled from the spec: the constructor of \<^verbatim>\<open>TaskDescriptor\<close> (\<^verbatim>\<open>descriptors/TaskDescriptor\<close> is
  not among the sources). The specification says that it validates and normalizes a raw
  payload into a fixed set of fields and throws on a malformed payload. Here a payload is
  well formed when it is an object with every property of \<^verbatim>\<open>TaskProperties\<close>, and a field of the
  descriptor is the property of the payload that it is named after.\<close>

definition descriptor_fields :: "(string \<times> string) list" where
  "descriptor_fields =
     [(''addOns'', ''addons''), (''age'', ''age''), (''attributes'', ''attributes''),
      (''dateCreated'', ''date_created''), (''dateUpdated'', ''date_updated''),
      (''priority'', ''priority''), (''queueName'', ''queue_name''), (''queueSid'', ''queue_sid''),
      (''reason'', ''reason''), (''routingTarget'', ''routing_target''), (''sid'', ''sid''),
      (''status'', ''assignment_status''),
      (''taskChannelUniqueName'', ''task_channel_unique_name''),
      (''taskChannelSid'', ''task_channel_sid''), (''timeout'', ''timeout''),
      (''workflowName'', ''workflow_name''), (''workflowSid'', ''workflow_sid'')]"

definition spec_TaskDescriptor :: "jsval \<Rightarrow> jsval \<Rightarrow> error + (string \<Rightarrow> jsval)" where
  "spec_TaskDescriptor descriptor config =
     (case descriptor of
        JObj kv \<Rightarrow>
          if list_all (\<lambda>prop. map_of kv prop \<noteq> None) TaskProperties then
            Inr (\<lambda>field. case map_of descriptor_fields field of
                            None \<Rightarrow> JUndefined
                          | Some prop \<Rightarrow> (case map_of kv prop of None \<Rightarrow> JUndefined | Some v \<Rightarrow> v))
          else Inl (TypeError [Lit ''The provided <Descriptor>descriptor does not contain all properties of a Task.''])
      | _ \<Rightarrow> Inl (TypeError [Lit ''Failed to instantiate TaskDescriptor. <Descriptor>descriptor is required.'']))"

text \<open>Modelled from the spec: the methods of \<^verbatim>\<open>Transfers\<close> (\<^verbatim>\<open>core/transfer/Transfers\<close> is not among
  the sources). The specification says of \<^verbatim>\<open>_updateOutgoing\<close> that it replaces the outgoing slot
  with a transfer entity built from the payload, of \<^verbatim>\<open>_emitEvent\<close> that it updates the matching
  transfer's status fields and emits an event scoped to that transfer, and of \<^verbatim>\<open>_update\<close> that
  it is the merge routine of the set for the incoming and outgoing sub-payloads. A transfer
  entity has its own sid; a payload without a string \<^verbatim>\<open>sid\<close> is malformed.\<close>

definition spec_transfer :: "jsval \<Rightarrow> error + transfer" where
  "spec_transfer p =
     (case getprop p ''sid'' of
        Inr (JStr s) \<Rightarrow> Inr \<lparr> transferSid = s, payload = p \<rparr>
      | _ \<Rightarrow> Inl (TypeError [Lit ''The provided <Descriptor>descriptor does not contain all properties of a Transfer.'']))"

definition spec_updateOutgoing :: "Transfers \<Rightarrow> jsval \<Rightarrow> jsval \<Rightarrow> Transfers \<times> error option" where
  "spec_updateOutgoing tr latestTransferData isInitialTransferResult =
     (case spec_transfer latestTransferData of
        Inl err \<Rightarrow> (tr, Some err)
      | Inr x \<Rightarrow> (tr \<lparr> outgoing := Some x \<rparr>, None))"

definition spec_emitEvent :: "Transfers \<Rightarrow> jsval \<Rightarrow> jsval \<Rightarrow> Transfers \<times> error option" where
  "spec_emitEvent tr eventType rawEventData =
     (tr \<lparr> outgoing := map_option (\<lambda>x. x \<lparr> payload := rawEventData \<rparr>) (outgoing tr) \<rparr>, None)"

definition spec_update :: "Transfers \<Rightarrow> jsval \<Rightarrow> Transfers \<times> error option" where
  "spec_update tr latestTransfersData =
     (case getprop latestTransfersData ''incoming'' of
        Inl err \<Rightarrow> (tr, Some err)
      | Inr i \<Rightarrow>
          (case (if truthy i then map_sum id Some (spec_transfer i) else Inr (incoming tr)) of
             Inl err \<Rightarrow> (tr, Some err)
           | Inr inc \<Rightarrow>
               (case getprop latestTransfersData ''outgoing'' of
                  Inl err \<Rightarrow> (tr \<lparr> incoming := inc \<rparr>, Some err)
                | Inr out \<Rightarrow>
                    (case (if truthy out then map_sum id Some (spec_transfer out) else Inr (outgoing tr)) of
                       Inl err \<Rightarrow> (tr \<lparr> incoming := inc \<rparr>, Some err)
                     | Inr out' \<Rightarrow> (tr \<lparr> incoming := inc, outgoing := out' \<rparr>, None)))))"

text \<open>Modelled from the spec: \<^verbatim>\<open>validateOptions\<close> of \<^verbatim>\<open>util/Tools\<close> (not among the sources). The
  specification says that the options are validated against a schema of recognized options:
  the options are an object, and every option is recognized and passes the test of its
  type.\<close>

definition spec_validateOptions :: "jsval \<Rightarrow> (string \<times> (jsval \<Rightarrow> bool)) list \<Rightarrow> bool" where
  "spec_validateOptions options types =
     (isObject options \<and>
      list_all (\<lambda>(option, v). case map_of types option of None \<Rightarrow> False | Some ok \<Rightarrow> ok v)
        (for_in options))"

text \<open>Modelled from the spec: the constants of \<^verbatim>\<open>util/Constants\<close> (not among the sources). The
  specification names the two statuses, the event kind \<^verbatim>\<open>transfer-initiated\<close> and the events
  that a transfer gives rise to; the two API versions are tags. One listener is attached, for
  the event \<^verbatim>\<open>completed\<close>, and it returns.\<close>

definition example_env :: env where
  "example_env =
     \<lparr> TaskDescriptor = spec_TaskDescriptor,
       Transfers_update = spec_update,
       Transfers_updateOutgoing = spec_updateOutgoing,
       Transfers_emitEvent = spec_emitEvent,
       validateOptions = spec_validateOptions,
       getRoutes = example_Routes,
       API_V1 = JStr ''v1'',
       API_V2 = JStr ''v2'',
       TASK_STATUS_COMPLETED = JStr ''completed'',
       TASK_STATUS_WRAPPING = JStr ''wrapping'',
       TRANSFER_INITIATED = ''transfer-initiated'',
       taskTransferEventTypes =
         [(''transfer-attempt-failed'', ''transferAttemptFailed''),
          (''transfer-completed'', ''transferCompleted''),
          (''transfer-failed'', ''transferFailed''),
          (''transfer-initiated'', ''transferInitiated''),
          (''transfer-canceled'', ''transferCanceled'')],
       listeners = (\<lambda>name. [])(JStr ''completed'' := [None]) \<rparr>"

text \<open>A task \<^verbatim>\<open>WTxxx\<close> in status \<^verbatim>\<open>assigned\<close> that holds the outgoing transfer \<^verbatim>\<open>TTaaa\<close>, the same task
  with no transfer, and a payload for it.\<close>

definition example_Task :: Task where
  "example_Task =
     \<lparr> sid = ''WTxxx'', reservationSid = ''WRzzz'',
       own = (\<lambda>field. JUndefined)(''status'' := JStr ''assigned'', ''priority'' := JNum 0),
       transfers = \<lparr> incoming = None,
                     outgoing = Some \<lparr> transferSid = ''TTaaa'', payload = JObj [(''sid'', JStr ''TTaaa'')] \<rparr> \<rparr> \<rparr>"

definition example_Task_no_transfer :: Task where
  "example_Task_no_transfer = example_Task \<lparr> transfers := \<lparr> incoming = None, outgoing = None \<rparr> \<rparr>"

definition example_payload :: jsval where
  "example_payload =
     JObj [(''addons'', JObj []), (''age'', JNum 12), (''attributes'', JObj [(''foo'', JNum 1)]),
           (''date_created'', JNum 1500000000), (''date_updated'', JNum 1500000012),
           (''priority'', JNum 5), (''queue_name'', JStr ''Support''), (''queue_sid'', JStr ''WQaaa''),
           (''reason'', JStr ''done''), (''routing_target'', JNull), (''sid'', JStr ''WTxxx''),
           (''assignment_status'', JStr ''completed''),
           (''task_channel_unique_name'', JStr ''voice''), (''task_channel_sid'', JStr ''TCaaa''),
           (''timeout'', JNum 3600), (''workflow_name'', JStr ''Default''),
           (''workflow_sid'', JStr ''WWaaa'')]"

subsection \<open>Vocabulary of the properties\<close>

text \<open>The Task fields that reconciliation assigns: the update set without \<^verbatim>\<open>transfers\<close>.\<close>

definition updated_fields :: "string list" where
  "updated_fields = filter (\<lambda>field. field \<noteq> ''transfers'') fieldsToUpdate"

text \<open>An effect that is a line of the log.\<close>

fun is_Log :: "effect \<Rightarrow> bool" where
  "is_Log (Log l m xs) = True"
| "is_Log x = False"

section \<open>Route resolution\<close>

lemma match_count_no_pct: "CHR ''%'' \<notin> set s \<Longrightarrow> match_count s = 0"
  by (induction s rule: match_count.induct) auto

lemma first_match_None: "first_match p = None \<longleftrightarrow> match_count p = 0"
  by (induction p rule: first_match.induct) (auto split: option.splits)

lemma first_match_placeholders:
  "placeholders_only p \<Longrightarrow> first_match p = Some (b, a) \<Longrightarrow> CHR ''%'' \<notin> set b \<and> placeholders_only a"
  by (induction p arbitrary: b rule: first_match.induct) (auto split: option.splits if_splits)

lemma first_match_prefix:
  "CHR ''%'' \<notin> set x \<Longrightarrow>
   first_match (x @ p) = (case first_match p of None \<Rightarrow> None | Some (b, a) \<Rightarrow> Some (x @ b, a))"
proof (induction x)
  case Nil
  then show ?case by (simp split: option.splits)
next
  case (Cons c x)
  then show ?case by (cases "x @ p") (auto split: option.splits)
qed

lemma GetSubstitution_plain: "CHR ''$'' \<notin> set r \<Longrightarrow> GetSubstitution m b a r = r"
  by (induction m b a r rule: GetSubstitution.induct) auto

lemma substitute_nil: "substitute_in_order p [] = p"
  by (induction p "[] :: string list" rule: substitute_in_order.induct) auto

lemma substitute_no_match: "match_count p = 0 \<Longrightarrow> substitute_in_order p args = p"
  by (induction p args rule: substitute_in_order.induct) (auto split: if_splits)

lemma substitute_first_match:
  "first_match p = Some (b, a) \<Longrightarrow>
   substitute_in_order p (x # xs) = b @ x @ substitute_in_order a xs"
  by (induction p arbitrary: b rule: first_match.induct) (auto split: option.splits if_splits)

lemma replace_all_in_order:
  "placeholders_only p \<Longrightarrow> CHR ''%'' \<notin> set x \<Longrightarrow> \<forall>a \<in> set args. plain a \<Longrightarrow>
   foldl replace_first (x @ p) args = x @ substitute_in_order p args"
proof (induction args arbitrary: x p)
  case Nil
  then show ?case by (simp add: substitute_nil)
next
  case (Cons a args)
  show ?case
  proof (cases "first_match p")
    case None
    then have "replace_first (x @ p) a = x @ p"
      using Cons.prems(2) by (simp add: replace_first_def first_match_prefix)
    moreover have "substitute_in_order p (a # args) = substitute_in_order p args"
      using None by (simp add: first_match_None substitute_no_match)
    ultimately show ?thesis using Cons by simp
  next
    case (Some ba)
    obtain b r where ba: "ba = (b, r)" by (cases ba)
    have pa: "plain a" using Cons.prems(3) by simp
    have br: "CHR ''%'' \<notin> set b" "placeholders_only r"
      using first_match_placeholders [OF Cons.prems(1)] Some ba by auto
    have "replace_first (x @ p) a = (x @ b @ a) @ r"
      using Cons.prems(2) Some ba pa
      by (simp add: replace_first_def first_match_prefix GetSubstitution_plain plain_def)
    moreover have "foldl replace_first ((x @ b @ a) @ r) args = (x @ b @ a) @ substitute_in_order r args"
      using Cons.prems br pa by (intro Cons.IH) (auto simp: plain_def)
    moreover have "substitute_in_order p (a # args) = b @ a @ substitute_in_order r args"
      using Some ba by (simp add: substitute_first_match)
    ultimately show ?thesis by simp
  qed
qed

lemma substitute_no_pct:
  "placeholders_only p \<Longrightarrow> \<forall>a \<in> set args. plain a \<Longrightarrow> match_count p \<le> length args \<Longrightarrow>
   CHR ''%'' \<notin> set (substitute_in_order p args)"
  by (induction p args rule: substitute_in_order.induct)
     (auto simp: plain_def split: list.splits if_splits)

lemma foldl_path:
  "foldl (\<lambda>copy arg. copy \<lparr> path := replace_first (path copy) arg \<rparr>) rt args =
   rt \<lparr> path := foldl replace_first (path rt) args \<rparr>"
  by (induction args arbitrary: rt) auto

lemma example_Routes_new: "new_Routes join_segments ''WSxxx'' ''WKyyy'' = Inr example_Routes"
  by (simp add: new_Routes_def example_Routes_def)

text \<open>The templates that the constructor builds hold no percent sign outside a placeholder,
  when the two sids hold none and the segments are joined by slashes.\<close>

lemma placeholders_only_Cons: "c \<noteq> CHR ''%'' \<Longrightarrow> placeholders_only (c # xs) = placeholders_only xs"
  by (cases xs) auto

lemma placeholders_only_append:
  "CHR ''%'' \<notin> set a \<Longrightarrow> placeholders_only (a @ b) = placeholders_only b"
  by (induction a) (auto simp: placeholders_only_Cons)

lemma placeholders_only_plain: "CHR ''%'' \<notin> set a \<Longrightarrow> placeholders_only a"
  using placeholders_only_append [of a "[]"] by simp

lemma new_Routes_placeholders_only:
  assumes "new_Routes join_segments ws wk = Inr r"
      and "CHR ''%'' \<notin> set ws" and "CHR ''%'' \<notin> set wk"
      and "map_of (routes r) name = Some rt"
  shows "placeholders_only (path rt)"
proof -
  have "\<forall>(n, x) \<in> set (routes_table join_segments ws wk). placeholders_only (path x)"
    using assms(2,3)
    by (simp add: routes_table_def placeholders_only_Cons placeholders_only_append placeholders_only_plain)
  moreover have "(name, rt) \<in> set (routes_table join_segments ws wk)"
    using assms(1,4) by (auto simp: new_Routes_def split: if_splits dest: map_of_SomeD)
  ultimately show ?thesis by auto
qed

text \<open>
  Claim C8, as the code has it. For a registered route whose template holds N placeholders:
  with no argument \<^verbatim>\<open>getRoute\<close> returns the registered route itself, template unchanged, and
  raises nothing, whatever N is; with one or more arguments whose number differs from N it
  fails with \<^verbatim>\<open>INVALID_ARGUMENT\<close> (invalid number of positional arguments); with exactly N
  arguments (N at least one), none of which holds a percent or a dollar sign, on a template
  whose percent signs all start a placeholder, it returns the template with the placeholders
  replaced from the left, one per argument in order, and no placeholder is left.
\<close>

theorem getRoute_resolves:
  assumes "map_of (routes r) name = Some rt"
  shows "(args = [] \<longrightarrow> getRoute r name args = Inr rt) \<and>
         (args \<noteq> [] \<and> length args \<noteq> match_count (path rt) \<longrightarrow>
            getRoute r name args =
              Inl (INVALID_ARGUMENT [Lit ''Invalid number of positional arguments supplied for route '', Lit name])) \<and>
         (args \<noteq> [] \<and> length args = match_count (path rt) \<and> placeholders_only (path rt) \<and>
          (\<forall>a \<in> set args. plain a) \<longrightarrow>
            getRoute r name args = Inr (rt \<lparr> path := substitute_in_order (path rt) args \<rparr>) \<and>
            match_count (substitute_in_order (path rt) args) = 0)"
proof (intro conjI impI)
  assume "args = []"
  then show "getRoute r name args = Inr rt"
    using assms by (simp add: getRoute_def)
next
  assume "args \<noteq> [] \<and> length args \<noteq> match_count (path rt)"
  then show "getRoute r name args =
      Inl (INVALID_ARGUMENT [Lit ''Invalid number of positional arguments supplied for route '', Lit name])"
    using assms by (simp add: getRoute_def)
next
  assume h: "args \<noteq> [] \<and> length args = match_count (path rt) \<and> placeholders_only (path rt) \<and>
          (\<forall>a \<in> set args. plain a)"
  have "foldl replace_first ([] @ path rt) args = [] @ substitute_in_order (path rt) args"
    using h by (intro replace_all_in_order) auto
  then show "getRoute r name args = Inr (rt \<lparr> path := substitute_in_order (path rt) args \<rparr>)"
    using assms h by (simp add: getRoute_def foldl_path)
next
  assume h: "args \<noteq> [] \<and> length args = match_count (path rt) \<and> placeholders_only (path rt) \<and>
          (\<forall>a \<in> set args. plain a)"
  then have "CHR ''%'' \<notin> set (substitute_in_order (path rt) args)"
    by (intro substitute_no_pct) auto
  then show "match_count (substitute_in_order (path rt) args) = 0"
    by (rule match_count_no_pct)
qed

lemma example_table:
  "map_of (routes example_Routes) TASK_RESERVATION_INSTANCE =
     Some \<lparr> path = ''Workspaces/WSxxx/Tasks/%s/Reservations/%s'' \<rparr>"
  "map_of (routes example_Routes) TASK_INSTANCE = Some \<lparr> path = ''Workspaces/WSxxx/Tasks/%s'' \<rparr>"
  "map_of (routes example_Routes) TASK_TRANSFER_LIST = Some \<lparr> path = ''Workspaces/WSxxx/Workers/WKyyy/Transfers'' \<rparr>"
  by (simp_all add: example_Routes_def routes_table_def route_names)

text \<open>The theorem at the route of a reservation of a task (two placeholders) and at the
  list of transfers (none).\<close>

theorem getRoute_resolves_witness:
  "getRoute example_Routes TASK_RESERVATION_INSTANCE [''WT1'', ''WR2''] =
     Inr \<lparr> path = ''Workspaces/WSxxx/Tasks/WT1/Reservations/WR2'' \<rparr> \<and>
   match_count ''Workspaces/WSxxx/Tasks/WT1/Reservations/WR2'' = 0 \<and>
   getRoute example_Routes TASK_RESERVATION_INSTANCE [''WT1''] =
     Inl (INVALID_ARGUMENT [Lit ''Invalid number of positional arguments supplied for route '',
                            Lit TASK_RESERVATION_INSTANCE]) \<and>
   getRoute example_Routes TASK_TRANSFER_LIST [] =
     Inr \<lparr> path = ''Workspaces/WSxxx/Workers/WKyyy/Transfers'' \<rparr>"
  using getRoute_resolves [OF example_table(1), of "[''WT1'', ''WR2'']"]
        getRoute_resolves [OF example_table(1), of "[''WT1'']"]
        getRoute_resolves [OF example_table(3), of "[]"]
  by (simp add: plain_def)

text \<open>
  Claim C8 as stated fails twice on the route of a task (one placeholder): with no argument
  no error is raised and the template comes back with its placeholder; with the one argument
  \<^verbatim>\<open>%s\<close> the call succeeds and the path still holds a placeholder.
\<close>

theorem getRoute_counterexample:
  "match_count ''Workspaces/WSxxx/Tasks/%s'' = 1 \<and>
   getRoute example_Routes TASK_INSTANCE [] = Inr \<lparr> path = ''Workspaces/WSxxx/Tasks/%s'' \<rparr> \<and>
   getRoute example_Routes TASK_INSTANCE [''%s''] = Inr \<lparr> path = ''Workspaces/WSxxx/Tasks/%s'' \<rparr>"
  by (simp add: getRoute_def example_table replace_first_def)

section \<open>Event dispatch\<close>

text \<open>
  Claim C2. An outgoing-transfer event (a string as its type, an object as its data) whose
  \<^verbatim>\<open>sid\<close> is not the sid of the outgoing transfer that the task holds changes no field of the
  task or of its transfers, emits nothing and raises nothing: the call returns after two
  lines of the log, the trace of the call and the note that the event was dropped.
\<close>

theorem stale_transfer_event_dropped:
  assumes "isString eventType" and "isObject rawEventData"
      and "outgoing (transfers t) = Some held"
      and "getprop rawEventData ''sid'' \<noteq> Inr (JStr (transferSid held))"
  shows "Task_emitEventForOutgoingTransfer e t eventType rawEventData =
           (Inr (), t,
            [Log TRACE [Lit ''_emitEventForOutgoingTransfer('', Val eventType, Lit '', '', Json rawEventData, Lit '')''] [],
             Log DEBUG [Lit ''The transfers.outgoing object is either not present or does not match the transfer sid in the event. '',
                        Json rawEventData] []])"
  using assms by (simp add: Task_emitEventForOutgoingTransfer_def outgoing_matches_def)

text \<open>
  The theorem on the task that holds transfer \<^verbatim>\<open>TTaaa\<close>, for an event of transfer \<^verbatim>\<open>TTbbb\<close>.
\<close>

theorem stale_transfer_event_dropped_witness:
  "Task_emitEventForOutgoingTransfer example_env example_Task (JStr ''transfer-completed'')
       (JObj [(''sid'', JStr ''TTbbb'')]) =
     (Inr (), example_Task,
      [Log TRACE [Lit ''_emitEventForOutgoingTransfer('', Val (JStr ''transfer-completed''), Lit '', '',
                  Json (JObj [(''sid'', JStr ''TTbbb'')]), Lit '')''] [],
       Log DEBUG [Lit ''The transfers.outgoing object is either not present or does not match the transfer sid in the event. '',
                  Json (JObj [(''sid'', JStr ''TTbbb'')])] []])"
  using stale_transfer_event_dropped [of "JStr ''transfer-completed''" "JObj [(''sid'', JStr ''TTbbb'')]"
      example_Task "\<lparr> transferSid = ''TTaaa'', payload = JObj [(''sid'', JStr ''TTaaa'')] \<rparr>" example_env]
  by (simp add: example_Task_def)

text \<open>
  Claim C10. While the task holds no outgoing transfer, \<^verbatim>\<open>_emitEventForOutgoingTransfer\<close>
  leaves the task and its transfers as they are, whatever the event type and the event
  data, and its only effects are lines of the log: nothing is emitted and no method of
  \<^verbatim>\<open>Transfers\<close> is called, so no outgoing transfer comes to be held.
\<close>

theorem no_outgoing_transfer_no_change:
  assumes "outgoing (transfers t) = None"
  shows "fst (snd (Task_emitEventForOutgoingTransfer e t eventType rawEventData)) = t \<and>
         list_all is_Log (snd (snd (Task_emitEventForOutgoingTransfer e t eventType rawEventData)))"
  using assms by (simp add: Task_emitEventForOutgoingTransfer_def outgoing_matches_def Let_def)

text \<open>
  The theorem on the task with no transfer, for an event of kind \<^verbatim>\<open>transfer-initiated\<close>.
\<close>

theorem no_outgoing_transfer_no_change_witness:
  "fst (snd (Task_emitEventForOutgoingTransfer example_env example_Task_no_transfer
               (JStr ''transfer-initiated'') (JObj [(''sid'', JStr ''TTaaa'')]))) = example_Task_no_transfer \<and>
   list_all is_Log (snd (snd (Task_emitEventForOutgoingTransfer example_env example_Task_no_transfer
               (JStr ''transfer-initiated'') (JObj [(''sid'', JStr ''TTaaa'')])))) \<and>
   outgoing (transfers example_Task_no_transfer) = None"
  using no_outgoing_transfer_no_change [of example_Task_no_transfer example_env
      "JStr ''transfer-initiated''" "JObj [(''sid'', JStr ''TTaaa'')]"]
  by (simp add: example_Task_no_transfer_def)

text \<open>
  Claim C5. The task holds an outgoing transfer and the event's \<^verbatim>\<open>sid\<close> is its sid. An event
  of the kind \<^verbatim>\<open>TRANSFER_INITIATED\<close> goes to \<^verbatim>\<open>_updateOutgoing\<close> of the transfers, and once that has
  returned the task emits the event named in \<^verbatim>\<open>taskTransferEventTypes\<close> for that kind, with the
  outgoing transfer as the routine left it (a value the routine throws is passed on and
  nothing is emitted). The call then ends as \<^verbatim>\<open>emit\<close> does: normally when the listeners of that
  event return, with the value that a listener throws otherwise (and with the emitter's
  \<^verbatim>\<open>Error\<close>, should the table name the event \<^verbatim>\<open>error\<close> and no listener be attached). An event of
  any other kind goes to \<^verbatim>\<open>_emitEvent\<close> of the transfers, and the task itself emits nothing.
\<close>

theorem matching_transfer_event_routed:
  assumes "outgoing (transfers t) = Some held"
      and "getprop rawEventData ''sid'' = Inr (JStr (transferSid held))"
      and "map_of (taskTransferEventTypes e) (TRANSFER_INITIATED e) = Some name"
  shows "(kind = TRANSFER_INITIATED e \<longrightarrow>
            Task_emitEventForOutgoingTransfer e t (JStr kind) rawEventData =
              (case Transfers_updateOutgoing e (transfers t) rawEventData JUndefined of
                 (tr, None) \<Rightarrow>
                   (if name = ''error'' \<and> listeners e (JStr name) = []
                    then Inl (Error [Lit ''Unhandled error.''])
                    else run_listeners (listeners e (JStr name)),
                    t \<lparr> transfers := tr \<rparr>,
                    [Log TRACE [Lit ''_emitEventForOutgoingTransfer('', Val (JStr kind), Lit '', '', Json rawEventData, Lit '')''] [],
                     Called_updateOutgoing rawEventData JUndefined,
                     Emit (JStr name) (Outgoing (outgoing tr))])
               | (tr, Some err) \<Rightarrow>
                   (Inl err, t \<lparr> transfers := tr \<rparr>,
                    [Log TRACE [Lit ''_emitEventForOutgoingTransfer('', Val (JStr kind), Lit '', '', Json rawEventData, Lit '')''] [],
                     Called_updateOutgoing rawEventData JUndefined]))) \<and>
         (kind \<noteq> TRANSFER_INITIATED e \<longrightarrow>
            Task_emitEventForOutgoingTransfer e t (JStr kind) rawEventData =
              (case Transfers_emitEvent e (transfers t) (JStr kind) rawEventData of
                 (tr, thrown) \<Rightarrow>
                   (case thrown of None \<Rightarrow> Inr () | Some err \<Rightarrow> Inl err, t \<lparr> transfers := tr \<rparr>,
                    [Log TRACE [Lit ''_emitEventForOutgoingTransfer('', Val (JStr kind), Lit '', '', Json rawEventData, Lit '')''] [],
                     Called_emitEvent (JStr kind) rawEventData])))"
proof -
  have obj: "isObject rawEventData"
    using assms(2) by (cases rawEventData) auto
  have m: "outgoing_matches t rawEventData"
    using assms(1,2) by (simp add: outgoing_matches_def)
  have keys: "pick_keys (taskTransferEventTypes e) [TRANSFER_INITIATED e] = [TRANSFER_INITIATED e]"
    using assms(3) by (simp add: pick_keys_def)
  show ?thesis
    using obj m keys assms(3)
    by (auto simp: Task_emitEventForOutgoingTransfer_def emit_def Let_def split: prod.splits option.splits)
qed

text \<open>
  The theorem on the task that holds transfer \<^verbatim>\<open>TTaaa\<close>, for an event of kind
  \<^verbatim>\<open>transfer-initiated\<close> and one of kind \<^verbatim>\<open>transfer-failed\<close>.
\<close>

theorem matching_transfer_event_routed_witness:
  "Task_emitEventForOutgoingTransfer example_env example_Task (JStr ''transfer-initiated'')
       (JObj [(''sid'', JStr ''TTaaa''), (''mode'', JStr ''COLD'')]) =
     (Inr (),
      example_Task \<lparr> transfers := \<lparr> incoming = None,
          outgoing = Some \<lparr> transferSid = ''TTaaa'',
                            payload = JObj [(''sid'', JStr ''TTaaa''), (''mode'', JStr ''COLD'')] \<rparr> \<rparr> \<rparr>,
      [Log TRACE [Lit ''_emitEventForOutgoingTransfer('', Val (JStr ''transfer-initiated''), Lit '', '',
                  Json (JObj [(''sid'', JStr ''TTaaa''), (''mode'', JStr ''COLD'')]), Lit '')''] [],
       Called_updateOutgoing (JObj [(''sid'', JStr ''TTaaa''), (''mode'', JStr ''COLD'')]) JUndefined,
       Emit (JStr ''transferInitiated'')
         (Outgoing (Some \<lparr> transferSid = ''TTaaa'',
                            payload = JObj [(''sid'', JStr ''TTaaa''), (''mode'', JStr ''COLD'')] \<rparr>))]) \<and>
   Task_emitEventForOutgoingTransfer example_env example_Task (JStr ''transfer-failed'')
       (JObj [(''sid'', JStr ''TTaaa'')]) =
     (Inr (), example_Task,
      [Log TRACE [Lit ''_emitEventForOutgoingTransfer('', Val (JStr ''transfer-failed''), Lit '', '',
                  Json (JObj [(''sid'', JStr ''TTaaa'')]), Lit '')''] [],
       Called_emitEvent (JStr ''transfer-failed'') (JObj [(''sid'', JStr ''TTaaa'')])])"
  using matching_transfer_event_routed [of example_Task
          "\<lparr> transferSid = ''TTaaa'', payload = JObj [(''sid'', JStr ''TTaaa'')] \<rparr>"
          "JObj [(''sid'', JStr ''TTaaa''), (''mode'', JStr ''COLD'')]" example_env
          "''transferInitiated''" "''transfer-initiated''"]
        matching_transfer_event_routed [of example_Task
          "\<lparr> transferSid = ''TTaaa'', payload = JObj [(''sid'', JStr ''TTaaa'')] \<rparr>"
          "JObj [(''sid'', JStr ''TTaaa'')]" example_env
          "''transferInitiated''" "''transfer-failed''"]
  by (simp add: example_Task_def example_env_def spec_updateOutgoing_def spec_transfer_def spec_emitEvent_def)

lemma run_listeners_return: "\<forall>l \<in> set ls. l = None \<Longrightarrow> run_listeners ls = Inr ()"
  by (induction ls) auto

lemma run_listeners_throw:
  "\<forall>l \<in> set ls. l = None \<Longrightarrow> run_listeners (ls @ Some err # ls') = Inl err"
  by (induction ls) auto

text \<open>
  Claim C9, as the code has it. \<^verbatim>\<open>_emitEvent\<close> throws its \<^verbatim>\<open>TypeError\<close> when the event type is not a
  string, and when the event type is a string and the event data is not an object, and then
  it does not emit. In every other case, the empty string included, it calls \<^verbatim>\<open>emit\<close> with the
  event type and the task itself, once, and the call ends as that \<^verbatim>\<open>emit\<close> does: normally when
  every listener of the event returns (for the event \<^verbatim>\<open>error\<close>: and there is one), with the
  emitter's \<^verbatim>\<open>Error\<close> for the event \<^verbatim>\<open>error\<close> without a listener, and with the value that the first
  throwing listener throws. The method changes no field of the task in any case.
\<close>

theorem emitEvent_guards:
  "(\<not> isString eventType \<longrightarrow>
      Task_emitEvent e t eventType rawEventData =
        (Inl (TypeError [Lit ''Error calling _emitEvent(). <string>eventType is a required parameter.'']), t,
         [Log TRACE [Lit ''_emitEvent('', Val eventType, Lit '', '', Json rawEventData, Lit '')''] []])) \<and>
   (isString eventType \<and> \<not> isObject rawEventData \<longrightarrow>
      Task_emitEvent e t eventType rawEventData =
        (Inl (TypeError [Lit ''Error calling method _emitEvent(). <object>payload is a required parameter.'']), t,
         [Log TRACE [Lit ''_emitEvent('', Val eventType, Lit '', '', Json rawEventData, Lit '')''] []])) \<and>
   (isString eventType \<and> isObject rawEventData \<longrightarrow>
      snd (Task_emitEvent e t eventType rawEventData) =
        (t, [Log TRACE [Lit ''_emitEvent('', Val eventType, Lit '', '', Json rawEventData, Lit '')''] [],
             Emit eventType This]) \<and>
      (eventType = JStr ''error'' \<and> listeners e eventType = [] \<longrightarrow>
         fst (Task_emitEvent e t eventType rawEventData) = Inl (Error [Lit ''Unhandled error.''])) \<and>
      (\<not> (eventType = JStr ''error'' \<and> listeners e eventType = []) \<and>
       (\<forall>l \<in> set (listeners e eventType). l = None) \<longrightarrow>
         fst (Task_emitEvent e t eventType rawEventData) = Inr ()) \<and>
      (\<forall>returning err others.
         listeners e eventType = returning @ Some err # others \<and> (\<forall>l \<in> set returning. l = None) \<longrightarrow>
         fst (Task_emitEvent e t eventType rawEventData) = Inl err))"
  by (auto simp: Task_emitEvent_def emit_def Let_def run_listeners_return run_listeners_throw)

text \<open>
  The theorem on the example task, where the one listener is for \<^verbatim>\<open>completed\<close>: the events
  \<^verbatim>\<open>completed\<close> and \<^verbatim>\<open>updated\<close>, the event \<^verbatim>\<open>error\<close>, a number as event type, and a string as event
  data.
\<close>

theorem emitEvent_guards_witness:
  "Task_emitEvent example_env example_Task (JStr ''completed'') (JObj []) =
     (Inr (), example_Task,
      [Log TRACE [Lit ''_emitEvent('', Val (JStr ''completed''), Lit '', '', Json (JObj []), Lit '')''] [],
       Emit (JStr ''completed'') This]) \<and>
   Task_emitEvent example_env example_Task (JStr ''updated'') (JObj []) =
     (Inr (), example_Task,
      [Log TRACE [Lit ''_emitEvent('', Val (JStr ''updated''), Lit '', '', Json (JObj []), Lit '')''] [],
       Emit (JStr ''updated'') This]) \<and>
   Task_emitEvent example_env example_Task (JStr ''error'') (JObj []) =
     (Inl (Error [Lit ''Unhandled error.'']), example_Task,
      [Log TRACE [Lit ''_emitEvent('', Val (JStr ''error''), Lit '', '', Json (JObj []), Lit '')''] [],
       Emit (JStr ''error'') This]) \<and>
   Task_emitEvent example_env example_Task (JNum 7) (JObj []) =
     (Inl (TypeError [Lit ''Error calling _emitEvent(). <string>eventType is a required parameter.'']), example_Task,
      [Log TRACE [Lit ''_emitEvent('', Val (JNum 7), Lit '', '', Json (JObj []), Lit '')''] []]) \<and>
   Task_emitEvent example_env example_Task (JStr ''completed'') (JStr ''x'') =
     (Inl (TypeError [Lit ''Error calling method _emitEvent(). <object>payload is a required parameter.'']), example_Task,
      [Log TRACE [Lit ''_emitEvent('', Val (JStr ''completed''), Lit '', '', Json (JStr ''x''), Lit '')''] []])"
proof -
  have l: "listeners example_env (JStr ''completed'') = [None]"
          "listeners example_env (JStr ''updated'') = []"
          "listeners example_env (JStr ''error'') = []"
    by (simp_all add: example_env_def)
  have pair: "\<And>x a b. (x = (a, b)) = (fst x = a \<and> snd x = b)"
    by auto
  show ?thesis
    using emitEvent_guards [of "JStr ''completed''" example_env example_Task "JObj []"]
          emitEvent_guards [of "JStr ''updated''" example_env example_Task "JObj []"]
          emitEvent_guards [of "JStr ''error''" example_env example_Task "JObj []"]
          emitEvent_guards [of "JNum 7" example_env example_Task "JObj []"]
          emitEvent_guards [of "JStr ''completed''" example_env example_Task "JStr ''x''"]
    by (simp add: l pair)
qed

text \<open>
  Claim C9 as stated fails on the empty string: it is not a non-empty string, yet the call
  raises nothing and emits the event of that name with the task.
\<close>

theorem emitEvent_empty_name_counterexample:
  "Task_emitEvent example_env example_Task (JStr '''') (JObj []) =
     (Inr (), example_Task,
      [Log TRACE [Lit ''_emitEvent('', Val (JStr ''''), Lit '', '', Json (JObj []), Lit '')''] [],
       Emit (JStr '''') This])"
  by (simp add: Task_emitEvent_def emit_def example_env_def)

section \<open>Reconciliation\<close>

lemma forEach_field_plain:
  "''transfers'' \<notin> set fs \<Longrightarrow>
   forEach_field e d ltd (fs @ gs) t =
     forEach_field e d ltd gs (t \<lparr> own := override_on (own t) d (set fs) \<rparr>)"
proof (induction fs arbitrary: t)
  case Nil
  then show ?case by simp
next
  case (Cons f fs)
  have neq: "f \<noteq> ''transfers''" and rest: "''transfers'' \<notin> set fs"
    using Cons.prems by auto
  have eq: "override_on ((own t)(f := d f)) d (set fs) = override_on (own t) d (set (f # fs))"
    by (auto simp: override_on_def)
  have "forEach_field e d ltd ((f # fs) @ gs) t =
        forEach_field e d ltd (fs @ gs) (t \<lparr> own := (own t)(f := d f) \<rparr>)"
    using neq by simp
  also have "\<dots> = forEach_field e d ltd gs
      (t \<lparr> own := override_on ((own t)(f := d f)) d (set fs) \<rparr>)"
    by (simp add: Cons.IH [OF rest] fun_upd_def)
  finally show ?case unfolding eq .
qed

lemma fieldsToUpdate_split: "fieldsToUpdate = updated_fields @ [''transfers'']"
  by (simp add: fieldsToUpdate_def updated_fields_def)

lemma transfers_not_updated_field: "''transfers'' \<notin> set updated_fields"
  by (simp add: updated_fields_def)

lemma forEach_fieldsToUpdate:
  "forEach_field e d ltd fieldsToUpdate t =
     (case carries ltd of
        Inl err \<Rightarrow> (Some err, t \<lparr> own := override_on (own t) d (set updated_fields) \<rparr>, [])
      | Inr c \<Rightarrow>
          if c then
            (case Transfers_update e (transfers t) ltd of
               (tr, thrown) \<Rightarrow>
                 (thrown, t \<lparr> own := override_on (own t) d (set updated_fields), transfers := tr \<rparr>,
                  [Called_update ltd]))
          else (None, t \<lparr> own := override_on (own t) d (set updated_fields) \<rparr>, []))"
  unfolding fieldsToUpdate_split forEach_field_plain [OF transfers_not_updated_field]
  by (simp split: sum.splits prod.splits option.splits)

lemma updated_fields_eq:
  "updated_fields =
     [''attributes'', ''status'', ''workflowSid'', ''workflowName'', ''queueSid'', ''queueName'',
      ''priority'', ''reason'', ''routingTarget'', ''timeout'', ''taskChannelSid'',
      ''taskChannelUniqueName'', ''age'', ''addOns'', ''dateUpdated'']"
  by (simp add: updated_fields_def fieldsToUpdate_def)

text \<open>\<^verbatim>\<open>_update\<close> on a payload that parses: the fields are assigned first, then the transfers
  payload decides.\<close>

lemma Task_update_parsed:
  assumes "TaskDescriptor e p (own t ''_config'') = Inr d"
  shows "Task_update e t p tp =
     (case carries (default_empty tp) of
        Inl err \<Rightarrow>
          (fst (update_aborted p err), t \<lparr> own := override_on (own t) d (set updated_fields) \<rparr>,
           snd (update_aborted p err))
      | Inr c \<Rightarrow>
          if c then
            (case Transfers_update e (transfers t) (default_empty tp) of
               (tr, None) \<Rightarrow>
                 (Inr (), t \<lparr> own := override_on (own t) d (set updated_fields), transfers := tr \<rparr>,
                  [Called_update (default_empty tp)])
             | (tr, Some err) \<Rightarrow>
                 (fst (update_aborted p err),
                  t \<lparr> own := override_on (own t) d (set updated_fields), transfers := tr \<rparr>,
                  Called_update (default_empty tp) # snd (update_aborted p err)))
          else (Inr (), t \<lparr> own := override_on (own t) d (set updated_fields) \<rparr>, []))"
  using assms
  by (simp add: Task_update_def forEach_fieldsToUpdate split: sum.splits prod.splits option.splits)

lemma Task_update_state:
  assumes "TaskDescriptor e p (own t ''_config'') = Inr d"
  shows "fst (snd (Task_update e t p tp)) =
           t \<lparr> own := override_on (own t) d (set updated_fields),
               transfers := (if carries (default_empty tp) = Inr True
                             then fst (Transfers_update e (transfers t) (default_empty tp))
                             else transfers t) \<rparr>"
  by (simp add: Task_update_parsed [OF assms] split: sum.splits prod.splits option.splits)

lemma config_not_updated: "''_config'' \<notin> set updated_fields"
  by (simp add: updated_fields_eq)

lemma example_payload_parsed:
  "TaskDescriptor example_env example_payload (own example_Task ''_config'') =
     Inr (\<lambda>field. case map_of descriptor_fields field of
            None \<Rightarrow> JUndefined
          | Some prop \<Rightarrow> (case getprop example_payload prop of Inl err \<Rightarrow> JUndefined | Inr v \<Rightarrow> v))"
  by (simp add: example_env_def spec_TaskDescriptor_def example_payload_def TaskProperties_def fun_eq_iff
       split: option.splits)

lemma example_payload_rejected:
  "TaskDescriptor example_env (JObj [(''sid'', JStr ''WTxxx'')]) (own example_Task ''_config'') =
     Inl (TypeError [Lit ''The provided <Descriptor>descriptor does not contain all properties of a Task.''])"
  by (simp add: example_env_def spec_TaskDescriptor_def TaskProperties_def)

lemma updated_fields_set:
  "set updated_fields =
     set [''attributes'', ''status'', ''workflowSid'', ''workflowName'', ''queueSid'',
          ''queueName'', ''priority'', ''reason'', ''routingTarget'', ''timeout'',
          ''taskChannelSid'', ''taskChannelUniqueName'', ''age'', ''addOns'',
          ''dateUpdated'']"
  by (simp add: updated_fields_eq)

lemma carries_reads:
  "getprop ltd ''incoming'' = Inr i \<Longrightarrow> getprop ltd ''outgoing'' = Inr out \<Longrightarrow>
   carries ltd = Inr (truthy i \<or> truthy out)"
  by (simp add: carries_def)

lemma Task_update_rejected:
  assumes "TaskDescriptor e p (own t ''_config'') = Inl err"
  shows "Task_update e t p tp = (fst (update_aborted p err), t, snd (update_aborted p err))"
  using assms by (simp add: Task_update_def split: prod.splits)

lemma update_aborted_calls: "Called_update x \<notin> set (snd (update_aborted p err))"
  by (simp add: update_aborted_def split: sum.splits)

text \<open>
  Claim C1. When the payload parses into a descriptor, \<^verbatim>\<open>_update\<close> leaves each of the fifteen
  fields \<^verbatim>\<open>attributes\<close>, \<^verbatim>\<open>status\<close>, \<^verbatim>\<open>workflowSid\<close>, \<^verbatim>\<open>workflowName\<close>, \<^verbatim>\<open>queueSid\<close>, \<^verbatim>\<open>queueName\<close>, \<^verbatim>\<open>priority\<close>,
  \<^verbatim>\<open>reason\<close>, \<^verbatim>\<open>routingTarget\<close>, \<^verbatim>\<open>timeout\<close>, \<^verbatim>\<open>taskChannelSid\<close>, \<^verbatim>\<open>taskChannelUniqueName\<close>, \<^verbatim>\<open>age\<close>, \<^verbatim>\<open>addOns\<close>
  and \<^verbatim>\<open>dateUpdated\<close> with the value of the descriptor, whatever it held before, and leaves
  every other property, the \<^verbatim>\<open>sid\<close> and the \<^verbatim>\<open>reservationSid\<close> as they were; this holds whatever
  the transfers payload is and also when the merge of the transfers throws. A second call
  with the same payload, straight after the first, leaves all these fields as the first call
  left them; when the transfers payload of the second call has no truthy \<^verbatim>\<open>incoming\<close> and no
  truthy \<^verbatim>\<open>outgoing\<close>, the whole task is as the first call left it.
\<close>

theorem update_overwrites_idempotent:
  assumes "TaskDescriptor e p (own t ''_config'') = Inr d"
  shows "(let t1 = fst (snd (Task_update e t p tp));
              t2 = fst (snd (Task_update e t1 p tp'))
          in (\<forall>field \<in> set [''attributes'', ''status'', ''workflowSid'', ''workflowName'', ''queueSid'',
                                    ''queueName'', ''priority'', ''reason'', ''routingTarget'', ''timeout'',
                                    ''taskChannelSid'', ''taskChannelUniqueName'', ''age'', ''addOns'',
                                    ''dateUpdated''].
                own t1 field = d field) \<and>
             (\<forall>field. field \<notin> set [''attributes'', ''status'', ''workflowSid'', ''workflowName'', ''queueSid'',
                                        ''queueName'', ''priority'', ''reason'', ''routingTarget'', ''timeout'',
                                        ''taskChannelSid'', ''taskChannelUniqueName'', ''age'', ''addOns'',
                                        ''dateUpdated''] \<longrightarrow>
                own t1 field = own t field) \<and>
             sid t1 = sid t \<and> reservationSid t1 = reservationSid t \<and>
             own t2 = own t1 \<and> sid t2 = sid t1 \<and> reservationSid t2 = reservationSid t1 \<and>
             (getprop (default_empty tp') ''incoming'' = Inr i \<and>
              getprop (default_empty tp') ''outgoing'' = Inr out \<and>
              \<not> truthy i \<and> \<not> truthy out \<longrightarrow> t2 = t1) \<and>
             (tp' = JUndefined \<longrightarrow> t2 = t1))"
proof -
  define t1 where "t1 = fst (snd (Task_update e t p tp))"
  define t2 where "t2 = fst (snd (Task_update e t1 p tp'))"
  have s1: "t1 = t \<lparr> own := override_on (own t) d (set updated_fields),
               transfers := (if carries (default_empty tp) = Inr True
                             then fst (Transfers_update e (transfers t) (default_empty tp))
                             else transfers t) \<rparr>"
    unfolding t1_def by (rule Task_update_state [OF assms])
  have cfg: "own t1 ''_config'' = own t ''_config''"
    using config_not_updated by (simp add: s1)
  have again: "TaskDescriptor e p (own t1 ''_config'') = Inr d"
    using assms cfg by simp
  have s2: "t2 = t1 \<lparr> own := override_on (own t1) d (set updated_fields),
               transfers := (if carries (default_empty tp') = Inr True
                             then fst (Transfers_update e (transfers t1) (default_empty tp'))
                             else transfers t1) \<rparr>"
    unfolding t2_def by (rule Task_update_state [OF again])
  have twice: "override_on (own t1) d (set updated_fields) = own t1"
    by (auto simp: s1 override_on_def)
  have a: "\<forall>field \<in> set updated_fields. own t1 field = d field"
    by (simp add: s1)
  have b: "\<forall>field. field \<notin> set updated_fields \<longrightarrow> own t1 field = own t field"
    by (simp add: s1)
  have c: "sid t1 = sid t \<and> reservationSid t1 = reservationSid t"
    by (simp add: s1)
  have d: "own t2 = own t1 \<and> sid t2 = sid t1 \<and> reservationSid t2 = reservationSid t1"
    using twice by (simp add: s2)
  have f: "getprop (default_empty tp') ''incoming'' = Inr i \<and>
           getprop (default_empty tp') ''outgoing'' = Inr out \<and>
           \<not> truthy i \<and> \<not> truthy out \<longrightarrow> t2 = t1"
    using twice by (auto simp: s2 carries_reads)
  have g: "tp' = JUndefined \<longrightarrow> t2 = t1"
    using twice by (auto simp: s2 carries_def default_empty_def)
  show ?thesis
    using a b c d f g
    unfolding Let_def t1_def [symmetric] t2_def [symmetric] updated_fields_set by blast
qed

text \<open>
  The theorem on the task \<^verbatim>\<open>WTxxx\<close> and the example payload: all fifteen fields take the values
  of the payload (the status goes from \<^verbatim>\<open>assigned\<close> to \<^verbatim>\<open>completed\<close>, the priority from 0 to 5), and a
  second call changes nothing.
\<close>

theorem update_overwrites_idempotent_witness:
  "map (own (fst (snd (Task_update example_env example_Task example_payload JUndefined))))
     [''attributes'', ''status'', ''workflowSid'', ''workflowName'', ''queueSid'',
      ''queueName'', ''priority'', ''reason'', ''routingTarget'', ''timeout'',
      ''taskChannelSid'', ''taskChannelUniqueName'', ''age'', ''addOns'',
      ''dateUpdated''] =
     [JObj [(''foo'', JNum 1)], JStr ''completed'', JStr ''WWaaa'', JStr ''Default'', JStr ''WQaaa'',
      JStr ''Support'', JNum 5, JStr ''done'', JNull, JNum 3600, JStr ''TCaaa'', JStr ''voice'',
      JNum 12, JObj [], JNum 1500000012] \<and>
   own example_Task ''status'' = JStr ''assigned'' \<and>
   own example_Task ''priority'' = JNum 0 \<and>
   fst (snd (Task_update example_env
              (fst (snd (Task_update example_env example_Task example_payload JUndefined)))
              example_payload JUndefined)) =
     fst (snd (Task_update example_env example_Task example_payload JUndefined))"
proof -
  have o: "own example_Task ''status'' = JStr ''assigned''" "own example_Task ''priority'' = JNum 0"
    by (simp_all add: example_Task_def)
  show ?thesis
    using update_overwrites_idempotent [OF example_payload_parsed, of JUndefined JUndefined]
    by (simp add: Let_def o descriptor_fields_def example_payload_def)
qed




text \<open>
  Claim C4, as the code has it. In a call of \<^verbatim>\<open>_update\<close> whose payload does not parse, the merge
  routine of the transfers is not called and the task is unchanged, whatever the transfers
  payload carries. In a call whose payload parses into a descriptor, where \<open>i\<close> and \<open>out\<close> are
  what \<^verbatim>\<open>latestTransfersData.incoming\<close> and \<^verbatim>\<open>latestTransfersData.outgoing\<close> read, the merge routine
  is called if and only if \<open>i\<close> or \<open>out\<close> is truthy; it is then called with that payload, after
  the fifteen fields of the task were assigned. When neither is truthy, and when no transfers
  payload is passed, the transfers are unchanged, the fifteen fields are assigned all the
  same, and the call has no other effect.
\<close>

theorem update_transfers_framed:
  "(TaskDescriptor e p (own t ''_config'') = Inl err \<longrightarrow>
      fst (snd (Task_update e t p tp)) = t \<and>
      (\<forall>x. Called_update x \<notin> set (snd (snd (Task_update e t p tp))))) \<and>
   (TaskDescriptor e p (own t ''_config'') = Inr d \<and>
    getprop (default_empty tp) ''incoming'' = Inr i \<and>
    getprop (default_empty tp) ''outgoing'' = Inr out \<longrightarrow>
      ((\<exists>x. Called_update x \<in> set (snd (snd (Task_update e t p tp)))) \<longleftrightarrow> truthy i \<or> truthy out) \<and>
      (truthy i \<or> truthy out \<longrightarrow>
         Called_update (default_empty tp) \<in> set (snd (snd (Task_update e t p tp))) \<and>
         fst (snd (Task_update e t p tp)) =
           t \<lparr> own := override_on (own t) d
                        (set [''attributes'', ''status'', ''workflowSid'', ''workflowName'', ''queueSid'',
                              ''queueName'', ''priority'', ''reason'', ''routingTarget'', ''timeout'',
                              ''taskChannelSid'', ''taskChannelUniqueName'', ''age'', ''addOns'',
                              ''dateUpdated'']),
               transfers := fst (Transfers_update e (transfers t) (default_empty tp)) \<rparr>) \<and>
      (\<not> truthy i \<and> \<not> truthy out \<longrightarrow>
         Task_update e t p tp =
           (Inr (),
            t \<lparr> own := override_on (own t) d
                         (set [''attributes'', ''status'', ''workflowSid'', ''workflowName'', ''queueSid'',
                               ''queueName'', ''priority'', ''reason'', ''routingTarget'', ''timeout'',
                               ''taskChannelSid'', ''taskChannelUniqueName'', ''age'', ''addOns'',
                               ''dateUpdated'']) \<rparr>,
            []))) \<and>
   (TaskDescriptor e p (own t ''_config'') = Inr d \<longrightarrow>
      Task_update e t p JUndefined =
        (Inr (),
         t \<lparr> own := override_on (own t) d
                      (set [''attributes'', ''status'', ''workflowSid'', ''workflowName'', ''queueSid'',
                            ''queueName'', ''priority'', ''reason'', ''routingTarget'', ''timeout'',
                            ''taskChannelSid'', ''taskChannelUniqueName'', ''age'', ''addOns'',
                            ''dateUpdated'']) \<rparr>,
         []))"
proof (intro conjI impI)
  assume r: "TaskDescriptor e p (own t ''_config'') = Inl err"
  show "fst (snd (Task_update e t p tp)) = t"
    by (simp add: Task_update_rejected [OF r])
  show "\<forall>x. Called_update x \<notin> set (snd (snd (Task_update e t p tp)))"
    by (simp add: Task_update_rejected [OF r] update_aborted_calls)
next
  assume h: "TaskDescriptor e p (own t ''_config'') = Inr d \<and>
    getprop (default_empty tp) ''incoming'' = Inr i \<and>
    getprop (default_empty tp) ''outgoing'' = Inr out"
  then have parsed: "TaskDescriptor e p (own t ''_config'') = Inr d"
    and c: "carries (default_empty tp) = Inr (truthy i \<or> truthy out)"
    by (simp_all add: carries_reads)
  show "(\<exists>x. Called_update x \<in> set (snd (snd (Task_update e t p tp)))) \<longleftrightarrow> truthy i \<or> truthy out"
    using update_aborted_calls
    by (auto simp: Task_update_parsed [OF parsed] c split: prod.splits option.splits)
  {
    assume "truthy i \<or> truthy out"
    then show "Called_update (default_empty tp) \<in> set (snd (snd (Task_update e t p tp)))"
      by (auto simp: Task_update_parsed [OF parsed] c split: prod.splits option.splits)
  next
    assume "truthy i \<or> truthy out"
    then show "fst (snd (Task_update e t p tp)) =
           t \<lparr> own := override_on (own t) d
                        (set [''attributes'', ''status'', ''workflowSid'', ''workflowName'', ''queueSid'',
                              ''queueName'', ''priority'', ''reason'', ''routingTarget'', ''timeout'',
                              ''taskChannelSid'', ''taskChannelUniqueName'', ''age'', ''addOns'',
                              ''dateUpdated'']),
               transfers := fst (Transfers_update e (transfers t) (default_empty tp)) \<rparr>"
      unfolding updated_fields_set [symmetric]
      by (auto simp: Task_update_parsed [OF parsed] c split: prod.splits option.splits)
  next
    assume "\<not> truthy i \<and> \<not> truthy out"
    then show "Task_update e t p tp =
           (Inr (),
            t \<lparr> own := override_on (own t) d
                         (set [''attributes'', ''status'', ''workflowSid'', ''workflowName'', ''queueSid'',
                               ''queueName'', ''priority'', ''reason'', ''routingTarget'', ''timeout'',
                               ''taskChannelSid'', ''taskChannelUniqueName'', ''age'', ''addOns'',
                               ''dateUpdated'']) \<rparr>,
            [])"
      unfolding updated_fields_set [symmetric]
      by (simp add: Task_update_parsed [OF parsed] c)
  }
next
  assume parsed: "TaskDescriptor e p (own t ''_config'') = Inr d"
  show "Task_update e t p JUndefined =
        (Inr (),
         t \<lparr> own := override_on (own t) d
                      (set [''attributes'', ''status'', ''workflowSid'', ''workflowName'', ''queueSid'',
                            ''queueName'', ''priority'', ''reason'', ''routingTarget'', ''timeout'',
                            ''taskChannelSid'', ''taskChannelUniqueName'', ''age'', ''addOns'',
                            ''dateUpdated'']) \<rparr>,
         [])"
    unfolding updated_fields_set [symmetric]
    by (simp add: Task_update_parsed [OF parsed] carries_def default_empty_def)
qed

lemma example_descriptor_status:
  "(case map_of descriptor_fields ''status'' of
      None \<Rightarrow> JUndefined
    | Some prop \<Rightarrow> (case getprop example_payload prop of Inl err \<Rightarrow> JUndefined | Inr v \<Rightarrow> v)) =
   JStr ''completed''"
  by (simp add: descriptor_fields_def example_payload_def)

text \<open>
  The theorem on the example payload, with a transfers payload that carries an outgoing
  transfer and with none, and on a payload that does not parse.
\<close>

theorem update_transfers_framed_witness:
  "Called_update (JObj [(''outgoing'', JObj [(''sid'', JStr ''TTccc'')])]) \<in>
     set (snd (snd (Task_update example_env example_Task example_payload
                      (JObj [(''outgoing'', JObj [(''sid'', JStr ''TTccc'')])])))) \<and>
   transfers (fst (snd (Task_update example_env example_Task example_payload
                      (JObj [(''outgoing'', JObj [(''sid'', JStr ''TTccc'')])])))) =
     \<lparr> incoming = None,
       outgoing = Some \<lparr> transferSid = ''TTccc'', payload = JObj [(''sid'', JStr ''TTccc'')] \<rparr> \<rparr> \<and>
   snd (snd (Task_update example_env example_Task example_payload JUndefined)) = [] \<and>
   transfers (fst (snd (Task_update example_env example_Task example_payload JUndefined))) =
     transfers example_Task \<and>
   own (fst (snd (Task_update example_env example_Task example_payload JUndefined))) ''status'' =
     JStr ''completed'' \<and>
   fst (snd (Task_update example_env example_Task (JObj [(''sid'', JStr ''WTxxx'')])
               (JObj [(''incoming'', JObj [(''sid'', JStr ''TTbbb'')])]))) = example_Task"
proof -
  let ?tp = "JObj [(''outgoing'', JObj [(''sid'', JStr ''TTccc'')])]"
  let ?d = "\<lambda>field. case map_of descriptor_fields field of
                     None \<Rightarrow> JUndefined
                   | Some prop \<Rightarrow> (case getprop example_payload prop of Inl err \<Rightarrow> JUndefined | Inr v \<Rightarrow> v)"
  have d: "default_empty ?tp = ?tp"
    by (simp add: default_empty_def)
  have r: "getprop (default_empty ?tp) ''incoming'' = Inr JUndefined"
          "getprop (default_empty ?tp) ''outgoing'' = Inr (JObj [(''sid'', JStr ''TTccc'')])"
    by (simp_all add: default_empty_def)
  have m: "fst (Transfers_update example_env (transfers example_Task) ?tp) =
           \<lparr> incoming = None,
             outgoing = Some \<lparr> transferSid = ''TTccc'', payload = JObj [(''sid'', JStr ''TTccc'')] \<rparr> \<rparr>"
    by (simp add: example_env_def example_Task_def spec_update_def spec_transfer_def)
  note A = update_transfers_framed [of example_env example_payload example_Task
             "TypeError []" ?tp ?d JUndefined "JObj [(''sid'', JStr ''TTccc'')]"]
  note B = update_transfers_framed [of example_env "JObj [(''sid'', JStr ''WTxxx'')]" example_Task
             "TypeError [Lit ''The provided <Descriptor>descriptor does not contain all properties of a Task.'']"
             "JObj [(''incoming'', JObj [(''sid'', JStr ''TTbbb'')])]" ?d JUndefined JUndefined]
  from A example_payload_parsed r
  have a: "Called_update ?tp \<in> set (snd (snd (Task_update example_env example_Task example_payload ?tp)))"
    and b: "transfers (fst (snd (Task_update example_env example_Task example_payload ?tp))) =
              fst (Transfers_update example_env (transfers example_Task) ?tp)"
    unfolding d by simp_all
  from A example_payload_parsed
  have u: "Task_update example_env example_Task example_payload JUndefined =
        (Inr (),
         example_Task \<lparr> own := override_on (own example_Task) ?d
                      (set [''attributes'', ''status'', ''workflowSid'', ''workflowName'', ''queueSid'',
                            ''queueName'', ''priority'', ''reason'', ''routingTarget'', ''timeout'',
                            ''taskChannelSid'', ''taskChannelUniqueName'', ''age'', ''addOns'',
                            ''dateUpdated'']) \<rparr>,
         [])"
    by blast
  have e: "snd (snd (Task_update example_env example_Task example_payload JUndefined)) = []"
    and f: "transfers (fst (snd (Task_update example_env example_Task example_payload JUndefined))) =
              transfers example_Task"
    and g: "own (fst (snd (Task_update example_env example_Task example_payload JUndefined))) ''status'' =
              JStr ''completed''"
    unfolding u by (simp_all add: example_descriptor_status)
  from B example_payload_rejected
  have h: "fst (snd (Task_update example_env example_Task (JObj [(''sid'', JStr ''WTxxx'')])
               (JObj [(''incoming'', JObj [(''sid'', JStr ''TTbbb'')])]))) = example_Task"
    by blast
  show ?thesis
    using a b e f g h unfolding m by blast
qed

text \<open>
  Claim C4 as stated fails for a call whose payload does not parse: the transfers payload
  carries an incoming transfer, and the merge routine is not called.
\<close>

theorem update_transfers_counterexample:
  "getprop (JObj [(''incoming'', JObj [(''sid'', JStr ''TTbbb'')])]) ''incoming'' =
     Inr (JObj [(''sid'', JStr ''TTbbb'')]) \<and>
   truthy (JObj [(''sid'', JStr ''TTbbb'')]) \<and>
   Task_update example_env example_Task (JObj [(''sid'', JStr ''WTxxx'')])
       (JObj [(''incoming'', JObj [(''sid'', JStr ''TTbbb'')])]) =
     (Inl (Error [Lit ''Failed to update Task sid='', Val (JStr ''WTxxx''), Lit ''. Update aborted. Error: '',
                  Err (TypeError [Lit ''The provided <Descriptor>descriptor does not contain all properties of a Task.'']),
                  Lit ''.'']),
      example_Task,
      [Log ERROR [Lit ''Failed to update Task sid='', Val (JStr ''WTxxx''), Lit ''. Update aborted.'']
         [TypeError [Lit ''The provided <Descriptor>descriptor does not contain all properties of a Task.'']]])"
  using example_payload_rejected
  by (simp add: Task_update_def update_aborted_def)

section \<open>Commands\<close>

lemma new_Routes_lookup:
  assumes "new_Routes join ws wk = Inr r"
  shows "map_of (routes r) TASK_TRANSFER_LIST =
           Some \<lparr> path = join [''Workspaces'', ws, ''Workers'', wk, ''Transfers''] \<rparr>"
  using assms
  by (auto simp: new_Routes_def routes_table_def route_names split: if_splits)

lemma example_env_Routes: "new_Routes join_segments ''WSxxx'' ''WKyyy'' = Inr (getRoutes example_env)"
  by (simp add: example_env_def example_Routes_new)

text \<open>
  Claim C6, as the code has it. For \<^verbatim>\<open>transfer(to, options)\<close> with a string \<^verbatim>\<open>to\<close>, on the routes that
  the constructor of \<^verbatim>\<open>Routes\<close> builds, where \<open>a\<close>, \<open>m\<close> and \<open>pr\<close> are what \<^verbatim>\<open>options.attributes\<close>,
  \<^verbatim>\<open>options.mode\<close> and \<^verbatim>\<open>options.priority\<close> read: one request is posted to the list of transfers, with
  \<^verbatim>\<open>ReservationSid\<close>, \<^verbatim>\<open>TaskSid\<close> and \<^verbatim>\<open>To\<close>, and with \<^verbatim>\<open>Attributes\<close>, \<^verbatim>\<open>Mode\<close> and \<^verbatim>\<open>Priority\<close> each exactly when
  the option's value is truthy (an option that is absent, or present with a value such as
  the empty string or 0, is left out); the task is unchanged by the call. When the request
  resolves, the response goes to \<^verbatim>\<open>_updateOutgoing\<close> of the transfers and nowhere else: the fields
  of the task are not reconciled. With \<^verbatim>\<open>_updateOutgoing\<close> as the specification describes it,
  the outgoing transfer then has the \<^verbatim>\<open>sid\<close> of the response.
\<close>

theorem transfer_request_and_result:
  assumes "new_Routes join ws wk = Inr (getRoutes e)"
      and "getprop (default_empty opts) ''attributes'' = Inr a"
      and "getprop (default_empty opts) ''mode'' = Inr m"
      and "getprop (default_empty opts) ''priority'' = Inr pr"
  shows "(\<exists>requestParams.
            Task_transfer e t (JStr to) opts =
              (Awaits, t,
               [Post (join [''Workspaces'', ws, ''Workers'', wk, ''Transfers'']) requestParams (API_V2 e)]) \<and>
            distinct (map fst requestParams) \<and>
            map_of requestParams ''ReservationSid'' = Some (JStr (reservationSid t)) \<and>
            map_of requestParams ''TaskSid'' = Some (JStr (sid t)) \<and>
            map_of requestParams ''To'' = Some (JStr to) \<and>
            map_of requestParams ''Attributes'' = (if truthy a then Some a else None) \<and>
            map_of requestParams ''Mode'' = (if truthy m then Some m else None) \<and>
            map_of requestParams ''Priority'' = (if truthy pr then Some pr else None)) \<and>
         fst (snd (transfer_resumed e t (JStr to) response)) =
           t \<lparr> transfers := fst (Transfers_updateOutgoing e (transfers t) response (JBool True)) \<rparr> \<and>
         snd (snd (transfer_resumed e t (JStr to) response)) =
           [Log INFO [Lit ''Completed transfer to Worker/TaskQueue='', Val (JStr to)] [],
            Called_updateOutgoing response (JBool True)] \<and>
         (Transfers_updateOutgoing e = spec_updateOutgoing \<and> getprop response ''sid'' = Inr (JStr s) \<longrightarrow>
            transfer_resumed e t (JStr to) response =
              (Inr (),
               t \<lparr> transfers := (transfers t) \<lparr> outgoing := Some \<lparr> transferSid = s, payload = response \<rparr> \<rparr> \<rparr>,
               [Log INFO [Lit ''Completed transfer to Worker/TaskQueue='', Val (JStr to)] [],
                Called_updateOutgoing response (JBool True)]))"
proof (intro conjI impI)
  have route: "getRoute (getRoutes e) TASK_TRANSFER_LIST [] =
                 Inr \<lparr> path = join [''Workspaces'', ws, ''Workers'', wk, ''Transfers''] \<rparr>"
    by (simp add: getRoute_def new_Routes_lookup [OF assms(1)])
  let ?params = "[(''ReservationSid'', JStr (reservationSid t)), (''TaskSid'', JStr (sid t)), (''To'', JStr to)]
                 @ (if truthy a then [(''Attributes'', a)] else [])
                 @ (if truthy m then [(''Mode'', m)] else [])
                 @ (if truthy pr then [(''Priority'', pr)] else [])"
  have call: "Task_transfer e t (JStr to) opts =
      (Awaits, t, [Post (join [''Workspaces'', ws, ''Workers'', wk, ''Transfers'']) ?params (API_V2 e)])"
    using assms(2-4) by (simp add: Task_transfer_def Let_def route)
  have "distinct (map fst ?params)" by simp
  moreover have "map_of ?params ''ReservationSid'' = Some (JStr (reservationSid t))" by simp
  moreover have "map_of ?params ''TaskSid'' = Some (JStr (sid t))" by simp
  moreover have "map_of ?params ''To'' = Some (JStr to)" by simp
  moreover have "map_of ?params ''Attributes'' = (if truthy a then Some a else None)" by simp
  moreover have "map_of ?params ''Mode'' = (if truthy m then Some m else None)" by simp
  moreover have "map_of ?params ''Priority'' = (if truthy pr then Some pr else None)" by simp
  ultimately show "\<exists>requestParams.
            Task_transfer e t (JStr to) opts =
              (Awaits, t,
               [Post (join [''Workspaces'', ws, ''Workers'', wk, ''Transfers'']) requestParams (API_V2 e)]) \<and>
            distinct (map fst requestParams) \<and>
            map_of requestParams ''ReservationSid'' = Some (JStr (reservationSid t)) \<and>
            map_of requestParams ''TaskSid'' = Some (JStr (sid t)) \<and>
            map_of requestParams ''To'' = Some (JStr to) \<and>
            map_of requestParams ''Attributes'' = (if truthy a then Some a else None) \<and>
            map_of requestParams ''Mode'' = (if truthy m then Some m else None) \<and>
            map_of requestParams ''Priority'' = (if truthy pr then Some pr else None)"
    using call by blast
next
  show "fst (snd (transfer_resumed e t (JStr to) response)) =
           t \<lparr> transfers := fst (Transfers_updateOutgoing e (transfers t) response (JBool True)) \<rparr>"
    by (simp add: transfer_resumed_def Let_def split: prod.splits option.splits)
next
  show "snd (snd (transfer_resumed e t (JStr to) response)) =
           [Log INFO [Lit ''Completed transfer to Worker/TaskQueue='', Val (JStr to)] [],
            Called_updateOutgoing response (JBool True)]"
    by (simp add: transfer_resumed_def Let_def split: prod.splits option.splits)
next
  assume "Transfers_updateOutgoing e = spec_updateOutgoing \<and> getprop response ''sid'' = Inr (JStr s)"
  then show "transfer_resumed e t (JStr to) response =
              (Inr (),
               t \<lparr> transfers := (transfers t) \<lparr> outgoing := Some \<lparr> transferSid = s, payload = response \<rparr> \<rparr> \<rparr>,
               [Log INFO [Lit ''Completed transfer to Worker/TaskQueue='', Val (JStr to)] [],
                Called_updateOutgoing response (JBool True)])"
    by (simp add: transfer_resumed_def Let_def spec_updateOutgoing_def spec_transfer_def)
qed

text \<open>
  The theorem for \<^verbatim>\<open>transfer("WKyyy", {mode: "COLD"})\<close> and the response \<^verbatim>\<open>{sid: "TTnew"}\<close>.
\<close>

theorem transfer_request_and_result_witness:
  "Task_transfer example_env example_Task (JStr ''WKyyy'') (JObj [(''mode'', JStr ''COLD'')]) =
     (Awaits, example_Task,
      [Post ''Workspaces/WSxxx/Workers/WKyyy/Transfers''
         [(''ReservationSid'', JStr ''WRzzz''), (''TaskSid'', JStr ''WTxxx''), (''To'', JStr ''WKyyy''),
          (''Mode'', JStr ''COLD'')]
         (JStr ''v2'')]) \<and>
   transfer_resumed example_env example_Task (JStr ''WKyyy'') (JObj [(''sid'', JStr ''TTnew'')]) =
     (Inr (),
      example_Task \<lparr> transfers := \<lparr> incoming = None,
          outgoing = Some \<lparr> transferSid = ''TTnew'', payload = JObj [(''sid'', JStr ''TTnew'')] \<rparr> \<rparr> \<rparr>,
      [Log INFO [Lit ''Completed transfer to Worker/TaskQueue='', Val (JStr ''WKyyy'')] [],
       Called_updateOutgoing (JObj [(''sid'', JStr ''TTnew'')]) (JBool True)])"
proof -
  have o: "getprop (default_empty (JObj [(''mode'', JStr ''COLD'')])) ''attributes'' = Inr JUndefined"
          "getprop (default_empty (JObj [(''mode'', JStr ''COLD'')])) ''mode'' = Inr (JStr ''COLD'')"
          "getprop (default_empty (JObj [(''mode'', JStr ''COLD'')])) ''priority'' = Inr JUndefined"
    by (simp_all add: default_empty_def)
  have u: "Transfers_updateOutgoing example_env = spec_updateOutgoing"
    by (simp add: example_env_def)
  from transfer_request_and_result [OF example_env_Routes o, of example_Task "''WKyyy''"
      "JObj [(''sid'', JStr ''TTnew'')]" "''TTnew''"] u
  obtain requestParams where
    call: "Task_transfer example_env example_Task (JStr ''WKyyy'') (JObj [(''mode'', JStr ''COLD'')]) =
        (Awaits, example_Task,
         [Post (join_segments [''Workspaces'', ''WSxxx'', ''Workers'', ''WKyyy'', ''Transfers'']) requestParams
            (API_V2 example_env)])"
    and resumed: "transfer_resumed example_env example_Task (JStr ''WKyyy'') (JObj [(''sid'', JStr ''TTnew'')]) =
        (Inr (),
         example_Task \<lparr> transfers := (transfers example_Task)
            \<lparr> outgoing := Some \<lparr> transferSid = ''TTnew'', payload = JObj [(''sid'', JStr ''TTnew'')] \<rparr> \<rparr> \<rparr>,
         [Log INFO [Lit ''Completed transfer to Worker/TaskQueue='', Val (JStr ''WKyyy'')] [],
          Called_updateOutgoing (JObj [(''sid'', JStr ''TTnew'')]) (JBool True)])"
    by auto
  have direct: "Task_transfer example_env example_Task (JStr ''WKyyy'') (JObj [(''mode'', JStr ''COLD'')]) =
     (Awaits, example_Task,
      [Post ''Workspaces/WSxxx/Workers/WKyyy/Transfers''
         [(''ReservationSid'', JStr ''WRzzz''), (''TaskSid'', JStr ''WTxxx''), (''To'', JStr ''WKyyy''),
          (''Mode'', JStr ''COLD'')]
         (JStr ''v2'')])"
    by (simp add: Task_transfer_def Let_def default_empty_def getRoute_def example_env_def example_Routes_def
          routes_table_def route_names example_Task_def)
  have tr: "(transfers example_Task)
            \<lparr> outgoing := Some \<lparr> transferSid = ''TTnew'', payload = JObj [(''sid'', JStr ''TTnew'')] \<rparr> \<rparr> =
          \<lparr> incoming = None,
            outgoing = Some \<lparr> transferSid = ''TTnew'', payload = JObj [(''sid'', JStr ''TTnew'')] \<rparr> \<rparr>"
    by (simp add: example_Task_def)
  show ?thesis
    using direct resumed unfolding tr by simp
qed

text \<open>
  Claim C6 as stated fails for options that are present with a falsy value: \<^verbatim>\<open>mode\<close> is the
  empty string and \<^verbatim>\<open>priority\<close> is 0, and the request carries neither \<^verbatim>\<open>Mode\<close> nor \<^verbatim>\<open>Priority\<close>.
\<close>

theorem transfer_falsy_options_counterexample:
  "getprop (JObj [(''mode'', JStr ''''), (''priority'', JNum 0)]) ''mode'' = Inr (JStr '''') \<and>
   getprop (JObj [(''mode'', JStr ''''), (''priority'', JNum 0)]) ''priority'' = Inr (JNum 0) \<and>
   Task_transfer example_env example_Task (JStr ''WKyyy'')
       (JObj [(''mode'', JStr ''''), (''priority'', JNum 0)]) =
     (Awaits, example_Task,
      [Post ''Workspaces/WSxxx/Workers/WKyyy/Transfers''
         [(''ReservationSid'', JStr ''WRzzz''), (''TaskSid'', JStr ''WTxxx''), (''To'', JStr ''WKyyy'')]
         (JStr ''v2'')])"
  by (simp add: Task_transfer_def Let_def default_empty_def getRoute_def example_env_def example_Routes_def
        routes_table_def route_names example_Task_def)

text \<open>
  Claim C7, as the code has it. \<^verbatim>\<open>complete\<close>, \<^verbatim>\<open>setAttributes\<close>, \<^verbatim>\<open>updateParticipant\<close>, \<^verbatim>\<open>kick\<close> and \<^verbatim>\<open>hold\<close>
  throw a \<^verbatim>\<open>TypeError\<close> when an argument fails the check of its type (reason, worker sid: a
  string; attributes: an object; onHold: a boolean; options: accepted by
  \<^verbatim>\<open>validateOptions\<close>), and \<^verbatim>\<open>wrapUp\<close> throws when \<^verbatim>\<open>options.reason\<close> is truthy and not a string;
  \<^verbatim>\<open>transfer\<close> with a \<^verbatim>\<open>to\<close> that is not a string throws nothing and returns a promise rejected
  with the \<^verbatim>\<open>TypeError\<close>. In every case no request is posted and the task is unchanged.
\<close>

theorem commands_reject_bad_arguments:
  "(\<not> isString reason \<longrightarrow>
      Task_complete e t reason =
        (Throws (TypeError [Lit ''Error calling method complete(). <string>reason is a required parameter.'']), t, [])) \<and>
   (\<not> isObject attributes \<longrightarrow>
      Task_setAttributes e t attributes =
        (Throws (TypeError [Lit ''Unable to set attributes on Task. <object>attributes is a required parameter.'']), t, [])) \<and>
   (\<not> validateOptions e options [(''hold'', isBoolean)] \<longrightarrow>
      Task_updateParticipant e t options =
        (Throws (TypeError [Lit ''Failed to update Worker Participant tied to Task sid='', Val (JStr (sid t)),
                            Lit ''. The options passed in did not match the required types.'']), t, [])) \<and>
   (\<not> isString worker \<longrightarrow>
      Task_kick e t worker =
        (Throws (TypeError [Lit ''Error calling method kick(). <string>workerSid is a required parameter.'']), t, [])) \<and>
   (\<not> isString targetWorkerSid \<longrightarrow>
      Task_hold e t targetWorkerSid onHold =
        (Throws (TypeError [Lit ''Error calling method hold(). <string>targetWorkerSid is a required parameter.'']), t, [])) \<and>
   (isString targetWorkerSid \<and> \<not> isBoolean onHold \<longrightarrow>
      Task_hold e t targetWorkerSid onHold =
        (Throws (TypeError [Lit ''Error calling method hold(). <boolean>onHold is a required parameter that is either true or false.'']), t, [])) \<and>
   (getprop (default_empty opts) ''reason'' = Inr r \<and> truthy r \<and> \<not> isString r \<longrightarrow>
      Task_wrapUp e t opts =
        (Throws (case getRoute (getRoutes e) TASK_INSTANCE [sid t] of
                   Inl err \<Rightarrow> err
                 | Inr route \<Rightarrow> Error [Lit ''Failed to call wrapUp() on Task sid='', Val (JStr (sid t)),
                                       Lit ''. A <string>reason is required.'']), t, [])) \<and>
   (\<not> isString to \<longrightarrow>
      Task_transfer e t to opts' =
        (Rejects (TypeError [Lit ''Error calling method transfer(). <string>to is a required parameter.'']), t, []))"
  by (simp add: Task_complete_def Task_setAttributes_def Task_updateParticipant_def Task_kick_def
        Task_hold_def Task_wrapUp_def Task_transfer_def Let_def split: sum.splits)

text \<open>
  The theorem for one bad argument of each command.
\<close>

theorem commands_reject_bad_arguments_witness:
  "Task_complete example_env example_Task (JNum 1) =
     (Throws (TypeError [Lit ''Error calling method complete(). <string>reason is a required parameter.'']), example_Task, []) \<and>
   Task_setAttributes example_env example_Task (JStr ''foo'') =
     (Throws (TypeError [Lit ''Unable to set attributes on Task. <object>attributes is a required parameter.'']), example_Task, []) \<and>
   Task_updateParticipant example_env example_Task (JObj [(''hold'', JStr ''yes'')]) =
     (Throws (TypeError [Lit ''Failed to update Worker Participant tied to Task sid='', Val (JStr ''WTxxx''),
                         Lit ''. The options passed in did not match the required types.'']), example_Task, []) \<and>
   Task_kick example_env example_Task JUndefined =
     (Throws (TypeError [Lit ''Error calling method kick(). <string>workerSid is a required parameter.'']), example_Task, []) \<and>
   Task_hold example_env example_Task JNull (JBool True) =
     (Throws (TypeError [Lit ''Error calling method hold(). <string>targetWorkerSid is a required parameter.'']), example_Task, []) \<and>
   Task_hold example_env example_Task (JStr ''WKyyy'') (JStr ''true'') =
     (Throws (TypeError [Lit ''Error calling method hold(). <boolean>onHold is a required parameter that is either true or false.'']), example_Task, []) \<and>
   Task_wrapUp example_env example_Task (JObj [(''reason'', JNum 7)]) =
     (Throws (Error [Lit ''Failed to call wrapUp() on Task sid='', Val (JStr ''WTxxx''),
                     Lit ''. A <string>reason is required.'']), example_Task, []) \<and>
   Task_transfer example_env example_Task (JNum 5) JUndefined =
     (Rejects (TypeError [Lit ''Error calling method transfer(). <string>to is a required parameter.'']), example_Task, [])"
proof -
  have v: "\<not> validateOptions example_env (JObj [(''hold'', JStr ''yes'')]) [(''hold'', isBoolean)]"
    by (simp add: example_env_def spec_validateOptions_def)
  have r: "getRoute (getRoutes example_env) TASK_INSTANCE [''WTxxx''] =
             Inr \<lparr> path = ''Workspaces/WSxxx/Tasks/WTxxx'' \<rparr>"
    by (simp add: getRoute_def example_env_def example_Routes_def routes_table_def route_names
          replace_first_def)
  have s: "sid example_Task = ''WTxxx''"
    by (simp add: example_Task_def)
  have w: "getprop (default_empty (JObj [(''reason'', JNum 7)])) ''reason'' = Inr (JNum 7)"
    by (simp add: default_empty_def)
  show ?thesis
    using commands_reject_bad_arguments [of "JNum 1" example_env example_Task "JStr ''foo''"
            "JObj [(''hold'', JStr ''yes'')]" JUndefined JNull "JBool True"
            "JObj [(''reason'', JNum 7)]" "JNum 7" "JNum 5" JUndefined]
          commands_reject_bad_arguments [of "JNum 1" example_env example_Task "JStr ''foo''"
            "JObj [(''hold'', JStr ''yes'')]" JUndefined "JStr ''WKyyy''" "JStr ''true''"
            "JObj [(''reason'', JNum 7)]" "JNum 7" "JNum 5" JUndefined]
          v w
    by (simp add: r s)
qed

text \<open>
  Claim C7 as stated fails twice: \<^verbatim>\<open>wrapUp({reason: 0})\<close> has a reason that is present and not a
  string, and the request is posted, without a \<^verbatim>\<open>Reason\<close>; \<^verbatim>\<open>transfer(5)\<close> does not fail
  synchronously, the call returns a rejected promise.
\<close>

theorem commands_counterexample:
  "getprop (JObj [(''reason'', JNum 0)]) ''reason'' = Inr (JNum 0) \<and>
   Task_wrapUp example_env example_Task (JObj [(''reason'', JNum 0)]) =
     (Awaits, example_Task,
      [Post ''Workspaces/WSxxx/Tasks/WTxxx'' [(''AssignmentStatus'', JStr ''wrapping'')] (JStr ''v1'')]) \<and>
   Task_transfer example_env example_Task (JNum 5) JUndefined =
     (Rejects (TypeError [Lit ''Error calling method transfer(). <string>to is a required parameter.'']),
      example_Task, [])"
  by (simp add: Task_wrapUp_def Task_transfer_def Let_def default_empty_def getRoute_def example_env_def
        example_Routes_def routes_table_def route_names example_Task_def replace_first_def)


end
